theory Spec2Isabelle
  imports Complex_Main
begin

section \<open>Data model of \<^verbatim>\<open>theoretical_nn_training/generators.py\<close>\<close>

text \<open>
  The generators compute with \<^verbatim>\<open>torch.float\<close> tensors. Here a tensor is a nested list of
  reals, so every arithmetic operation is the exact one: rounding, overflow and NaN are
  outside this development. On positive axis bounds and positive parameters (the inputs the
  closed forms are meant for) no operation of the program yields NaN, and there
  \<^verbatim>\<open>torch.fmin\<close> is the minimum of two reals. A float exponent (\<^verbatim>\<open>x ** (3 / 0.764)\<close>) is
  the real power \<open>powr\<close>; an integer exponent (\<^verbatim>\<open>Pe**2\<close>) is repeated multiplication.
  The device of a tensor is carried in the configuration and plays no part in any
  computation here.
\<close>

datatype Mode = GOOD | THETA | MIXED

text \<open>
  Modelled from the spec: \<^verbatim>\<open>Mode\<close>, \<^verbatim>\<open>Range\<close> and \<^verbatim>\<open>Resolution\<close> are imported from
  \<^verbatim>\<open>data_processing\<close>, which is not among the sources. A range has the attributes
  \<^verbatim>\<open>min\<close> and \<^verbatim>\<open>max\<close> (here \<open>min_r\<close>, \<open>max_r\<close>); a resolution is built from the three
  counts in the order \<^verbatim>\<open>Resolution(phi, Nw, eta_sp)\<close> and has them as attributes.
\<close>

record Range =
  min_r :: real
  max_r :: real

record Resolution =
  phi :: int
  Nw :: int
  eta_sp :: int

text \<open>The protocol \<^verbatim>\<open>Config\<close>, field by field.\<close>

record Config =
  device :: string
  resolution :: Resolution
  mode :: Mode
  phi_range :: Range
  nw_range :: Range
  eta_sp_range :: Range
  bg_range :: Range
  bth_range :: Range
  pe_range :: Range
  batch_size :: int

text \<open>
  A configuration is an object that the caller and the generators share. A reference is an
  address, and the store maps every address to the object that lives there.
\<close>

type_synonym ref = nat
type_synonym store = "ref \<Rightarrow> Config"

text \<open>
  The functions \<^verbatim>\<open>data.preprocess_eta_sp\<close> and \<^verbatim>\<open>data.normalize_feature\<close> belong to the
  module \<^verbatim>\<open>data_processing\<close>, which is not among the sources. They are parameters of the
  model, taken to act on each entry of a tensor by itself; no theorem below depends on what
  they compute.
\<close>

record data_processing =
  preprocess_eta_sp :: "real \<Rightarrow> Range \<Rightarrow> real"
  normalize_feature :: "real \<Rightarrow> Range \<Rightarrow> real"

text \<open>
  Randomness is an input. One value of \<open>draws\<close> holds what the random sources return during
  one call of \<^verbatim>\<open>__next__\<close>: the samples of the three feature distributions (shape
  \<^verbatim>\<open>(batch_size, 1, 1)\<close>, one real per batch element), the result of \<^verbatim>\<open>torch.rand\<close> (in
  \<open>[0, 1)\<close>) and the result of \<^verbatim>\<open>torch.randint(0, Nw, (batch_size, 8))\<close>.
\<close>

record draws =
  Bg_sample :: "real list"
  Bth_sample :: "real list"
  Pe_sample :: "real list"
  rand_sample :: "real list"
  nw_index_choices :: "nat list list"

datatype exn = StopIteration | AttributeError | ValueError | IndexError | RuntimeError

datatype generation = Good_generation | Mixed_generation | Theta_generation

text \<open>
  The attributes of a \<^verbatim>\<open>SurfaceGenerator\<close>. The grids \<^verbatim>\<open>self.phi\<close> (shape \<open>(1, P, 1)\<close>) and
  \<^verbatim>\<open>self.Nw\<close> (shape \<open>(1, 1, W)\<close>) are lists; \<^verbatim>\<open>self.config\<close> is a reference;
  \<^verbatim>\<open>num_batches\<close> and \<^verbatim>\<open>_index\<close> do not exist until \<^verbatim>\<open>__call__\<close> and \<^verbatim>\<open>__iter__\<close> set
  them. The distribution objects are left out: what they sample is in \<open>draws\<close>.
\<close>

record SurfaceGenerator =
  self_phi :: "real list"
  self_Nw :: "real list"
  generation_function :: generation
  config :: ref
  strip_nw :: bool
  num_batches :: "int option"
  index :: "int option"

section \<open>Grid construction\<close>

text \<open>
  \<^verbatim>\<open>numpy.linspace(start, stop, num, endpoint=True)\<close>: a negative \<open>num\<close> raises ValueError;
  entry \<open>i\<close> is \<open>i * step + start\<close> with \<open>step = (stop - start) / (num - 1)\<close>, and for
  \<open>num > 1\<close> the last entry is overwritten with \<open>stop\<close>.
\<close>

definition linspace :: "real \<Rightarrow> real \<Rightarrow> int \<Rightarrow> exn + real list" where
  "linspace start stop num =
     (if num < 0 then Inl ValueError
      else
        let dv = num - 1;
            delta = stop - start;
            y = map (\<lambda>i. (if dv > 0 then real i * (delta / real_of_int dv)
                            else real i * delta) + start) [0..<nat num]
        in Inr (if num > 1 then y[nat num - 1 := stop] else y))"

definition logspace :: "real \<Rightarrow> real \<Rightarrow> int \<Rightarrow> exn + real list" where
  "logspace start stop num =
     (case linspace start stop num of
        Inl e \<Rightarrow> Inl e
      | Inr y \<Rightarrow> Inr (map (\<lambda>v. 10 powr v) y))"

text \<open>
  \<^verbatim>\<open>numpy.geomspace(start, stop, num, endpoint=True)\<close>: an endpoint equal to zero raises
  ValueError; two negative endpoints are negated and the sign is restored at the end; the
  sequence is \<^verbatim>\<open>logspace(log10(start), log10(stop), num)\<close> with the first entry overwritten
  with \<open>start\<close> and, for \<open>num > 1\<close>, the last with \<open>stop\<close>. For endpoints of opposite
  signs the entries between the first and the last are NaN in the program; no statement
  below is about that case.
\<close>

definition geomspace :: "real \<Rightarrow> real \<Rightarrow> int \<Rightarrow> exn + real list" where
  "geomspace start stop num =
     (if start = 0 \<or> stop = 0 then Inl ValueError
      else
        let both_negative = (start < 0 \<and> stop < 0);
            start' = (if both_negative then - start else start);
            stop' = (if both_negative then - stop else stop);
            out_sign = (if both_negative then - 1 else 1)
        in case logspace (log 10 start') (log 10 stop') num of
             Inl e \<Rightarrow> Inl e
           | Inr result \<Rightarrow>
               let result1 = (if num > 0 then result[0 := start'] else result);
                   result2 = (if num > 1 then result1[nat num - 1 := stop'] else result1)
               in Inr (map (\<lambda>v. out_sign * v) result2))"

text \<open>
  \<^verbatim>\<open>SurfaceGenerator.__init__\<close>: the two grids, the generation function chosen by the mode,
  the reference to the configuration and the flag. The configuration is read, never
  checked.
\<close>

definition SurfaceGenerator_init :: "store \<Rightarrow> ref \<Rightarrow> bool \<Rightarrow> exn + SurfaceGenerator" where
  "SurfaceGenerator_init s cfg flag =
     (let c = s cfg in
      case geomspace (min_r (phi_range c)) (max_r (phi_range c)) (phi (resolution c)) of
        Inl e \<Rightarrow> Inl e
      | Inr phis \<Rightarrow>
          (case geomspace (min_r (nw_range c)) (max_r (nw_range c)) (Nw (resolution c)) of
             Inl e \<Rightarrow> Inl e
           | Inr Nws \<Rightarrow>
               Inr \<lparr>self_phi = phis, self_Nw = Nws,
                    generation_function =
                      (if mode c = GOOD then Good_generation
                       else if mode c = MIXED then Mixed_generation
                       else Theta_generation),
                    config = cfg, strip_nw = flag,
                    num_batches = None, index = None\<rparr>))"

section \<open>The three closed forms\<close>

text \<open>
  Each closed form is written for one batch element, one concentration \<open>ph\<close> and one chain
  length \<open>N\<close>: the entry that broadcasting a \<open>(batch, 1, 1)\<close> parameter against the
  \<open>(1, P, 1)\<close> and \<open>(1, 1, W)\<close> grids computes at one position.
\<close>

definition good_g :: "real \<Rightarrow> real \<Rightarrow> real" where
  "good_g Bg ph = Bg powr (3 / 0.764) / ph powr (1 / 0.764)"

definition good_eta_sp :: "real \<Rightarrow> real \<Rightarrow> real \<Rightarrow> real \<Rightarrow> real" where
  "good_eta_sp Bg Pe ph N =
     N * (1 + (N / Pe ^ 2 / good_g Bg ph) ^ 2)
       * min (1 / good_g Bg ph) (ph / Bg powr (1 / (1 - 0.588)))"

definition mixed_Bth :: "Range \<Rightarrow> real \<Rightarrow> real \<Rightarrow> real" where
  "mixed_Bth r u Bg = u * Bg powr (1 / 0.824) * (max_r r - min_r r) + min_r r"

definition mixed_g :: "real \<Rightarrow> real \<Rightarrow> real \<Rightarrow> real" where
  "mixed_g Bg Bth ph = min (Bg powr (3 / 0.764) / ph powr (1 / 0.764)) (Bth ^ 6 / ph ^ 2)"

definition mixed_Ne :: "real \<Rightarrow> real \<Rightarrow> real \<Rightarrow> real \<Rightarrow> real" where
  "mixed_Ne Bg Bth Pe ph =
     Pe ^ 2 * min (min (Bth powr (0.944 / 0.528) / Bg powr (2 / 0.528) * mixed_g Bg Bth ph)
                       (Bth ^ 2 * ph powr (- 4 / 3)))
                  (mixed_g Bg Bth ph)"

definition mixed_eta_sp :: "real \<Rightarrow> real \<Rightarrow> real \<Rightarrow> real \<Rightarrow> real \<Rightarrow> real" where
  "mixed_eta_sp Bg Bth Pe ph N =
     N * (1 + (N / mixed_Ne Bg Bth Pe ph) ^ 2) * min (1 / mixed_g Bg Bth ph) (ph / Bth ^ 2)"

definition theta_g :: "real \<Rightarrow> real \<Rightarrow> real" where
  "theta_g Bth ph = Bth ^ 6 / ph ^ 2"

definition theta_Ne :: "real \<Rightarrow> real \<Rightarrow> real \<Rightarrow> real" where
  "theta_Ne Bth Pe ph = Pe ^ 2 * min (Bth ^ 2 * ph powr (- 4 / 3)) (theta_g Bth ph)"

definition theta_eta_sp :: "real \<Rightarrow> real \<Rightarrow> real \<Rightarrow> real \<Rightarrow> real" where
  "theta_eta_sp Bth Pe ph N =
     N * (1 + (N / theta_Ne Bth Pe ph) ^ 2) * min (1 / theta_g Bth ph) (ph / Bth ^ 2)"

text \<open>
  Broadcasting: one \<open>P \<times> W\<close> surface per batch element, entry \<open>(b, p, w)\<close> computed from
  parameter \<open>b\<close>, concentration \<open>p\<close> and chain length \<open>w\<close>.
\<close>

definition broadcast :: "('a \<Rightarrow> real \<Rightarrow> real \<Rightarrow> real) \<Rightarrow> 'a list \<Rightarrow> real list \<Rightarrow> real list
    \<Rightarrow> real list list list" where
  "broadcast f params phis Nws = map (\<lambda>q. map (\<lambda>ph. map (\<lambda>N. f q ph N) Nws) phis) params"

definition map_tensor :: "(real \<Rightarrow> real) \<Rightarrow> real list list list \<Rightarrow> real list list list" where
  "map_tensor f t = map (map (map f)) t"

text \<open>The raw (not yet normalised) surfaces \<^verbatim>\<open>eta_sp\<close> of the three generation functions.\<close>

definition good_raw :: "SurfaceGenerator \<Rightarrow> draws \<Rightarrow> real list list list" where
  "good_raw self dr =
     broadcast (\<lambda>(Bg, Pe) ph N. good_eta_sp Bg Pe ph N)
       (zip (Bg_sample dr) (Pe_sample dr)) (self_phi self) (self_Nw self)"

definition mixed_params :: "Config \<Rightarrow> draws \<Rightarrow> (real \<times> real \<times> real) list" where
  "mixed_params c dr =
     map (\<lambda>(Bg, Pe, u). (Bg, mixed_Bth (bth_range c) u Bg, Pe))
       (zip (Bg_sample dr) (zip (Pe_sample dr) (rand_sample dr)))"

definition mixed_raw :: "Config \<Rightarrow> SurfaceGenerator \<Rightarrow> draws \<Rightarrow> real list list list" where
  "mixed_raw c self dr =
     broadcast (\<lambda>(Bg, Bth, Pe) ph N. mixed_eta_sp Bg Bth Pe ph N)
       (mixed_params c dr) (self_phi self) (self_Nw self)"

definition theta_raw :: "SurfaceGenerator \<Rightarrow> draws \<Rightarrow> real list list list" where
  "theta_raw self dr =
     broadcast (\<lambda>(Bth, Pe) ph N. theta_eta_sp Bth Pe ph N)
       (zip (Bth_sample dr) (Pe_sample dr)) (self_phi self) (self_Nw self)"

text \<open>
  The generation functions return the normalised surfaces and the normalised features
  (one row per batch element).
\<close>

definition good_generation :: "data_processing \<Rightarrow> Config \<Rightarrow> SurfaceGenerator \<Rightarrow> draws
    \<Rightarrow> real list list list \<times> real list list" where
  "good_generation d c self dr =
     (map_tensor (\<lambda>v. preprocess_eta_sp d v (eta_sp_range c)) (good_raw self dr),
      map (\<lambda>(Bg, Pe). [normalize_feature d Bg (bg_range c), normalize_feature d Pe (pe_range c)])
        (zip (Bg_sample dr) (Pe_sample dr)))"

definition mixed_generation :: "data_processing \<Rightarrow> Config \<Rightarrow> SurfaceGenerator \<Rightarrow> draws
    \<Rightarrow> real list list list \<times> real list list" where
  "mixed_generation d c self dr =
     (map_tensor (\<lambda>v. preprocess_eta_sp d v (eta_sp_range c)) (mixed_raw c self dr),
      map (\<lambda>(Bg, Bth, Pe). [normalize_feature d Bg (bg_range c),
                             normalize_feature d Bth (bth_range c),
                             normalize_feature d Pe (pe_range c)])
        (mixed_params c dr))"

definition theta_generation :: "data_processing \<Rightarrow> Config \<Rightarrow> SurfaceGenerator \<Rightarrow> draws
    \<Rightarrow> real list list list \<times> real list list" where
  "theta_generation d c self dr =
     (map_tensor (\<lambda>v. preprocess_eta_sp d v (eta_sp_range c)) (theta_raw self dr),
      map (\<lambda>(Bth, Pe). [normalize_feature d Bth (bth_range c), normalize_feature d Pe (pe_range c)])
        (zip (Bth_sample dr) (Pe_sample dr)))"

definition run_generation :: "data_processing \<Rightarrow> Config \<Rightarrow> SurfaceGenerator \<Rightarrow> draws
    \<Rightarrow> real list list list \<times> real list list" where
  "run_generation d c self dr =
     (case generation_function self of
        Good_generation \<Rightarrow> good_generation d c self dr
      | Mixed_generation \<Rightarrow> mixed_generation d c self dr
      | Theta_generation \<Rightarrow> theta_generation d c self dr)"

section \<open>The iterator protocol of \<^verbatim>\<open>SurfaceGenerator\<close>\<close>

text \<open>\<^verbatim>\<open>__call__\<close> stores the number of batches; \<^verbatim>\<open>__iter__\<close> sets the position to zero.\<close>

definition SurfaceGenerator_call :: "SurfaceGenerator \<Rightarrow> int \<Rightarrow> SurfaceGenerator" where
  "SurfaceGenerator_call self n = self\<lparr>num_batches := Some n\<rparr>"

definition SurfaceGenerator_iter :: "SurfaceGenerator \<Rightarrow> SurfaceGenerator" where
  "SurfaceGenerator_iter self = self\<lparr>index := Some 0\<rparr>"

text \<open>
  The stripping stage of \<^verbatim>\<open>__next__\<close>. \<^verbatim>\<open>to_keep_b[choices_b] = True\<close> sets the mask at
  every chosen index. \<^verbatim>\<open>surface[~to_keep_b] = 0\<close> indexes the \<open>(P, W)\<close> surface of one batch
  element with a boolean mask of length \<^verbatim>\<open>resolution.Nw\<close>: a one-dimensional mask selects
  along the first axis of the indexed tensor, so its length has to be the number \<open>P\<close> of
  rows (IndexError otherwise), and each row whose mask entry is false is set to zero.
\<close>

definition set_true :: "bool list \<Rightarrow> nat list \<Rightarrow> bool list" where
  "set_true to_keep_b choices_b = fold (\<lambda>i m. m[i := True]) choices_b to_keep_b"

definition mask_rows :: "real list list \<Rightarrow> bool list \<Rightarrow> exn + real list list" where
  "mask_rows surface to_keep_b =
     (if length surface \<noteq> length to_keep_b then Inl IndexError
      else Inr (map (\<lambda>(row, keep). if keep then row else map (\<lambda>v. 0) row)
                  (zip surface to_keep_b)))"

text \<open>
  The loop over \<^verbatim>\<open>zip(surfaces, to_keep, nw_index_choices)\<close> works in place: it ends with
  the shortest of the three, and the surfaces it did not reach stay as they are.
\<close>

fun strip_loop :: "real list list list \<Rightarrow> bool list list \<Rightarrow> nat list list
    \<Rightarrow> exn + real list list list" where
  "strip_loop (surface # surfaces) (to_keep_b # to_keep) (choices_b # choices) =
     (case mask_rows surface (set_true to_keep_b choices_b) of
        Inl e \<Rightarrow> Inl e
      | Inr surface' \<Rightarrow>
          (case strip_loop surfaces to_keep choices of
             Inl e \<Rightarrow> Inl e
           | Inr rest \<Rightarrow> Inr (surface' # rest)))"
| "strip_loop surfaces to_keep choices = Inr surfaces"

text \<open>
  \<^verbatim>\<open>torch.randint(0, Nw, (batch_size, 8))\<close> raises RuntimeError unless \<open>0 < Nw\<close> and the
  batch size is not negative; \<^verbatim>\<open>to_keep\<close> starts as \<open>batch_size\<close> rows of \<open>Nw\<close> times false.
\<close>

definition strip :: "Config \<Rightarrow> draws \<Rightarrow> real list list list \<Rightarrow> exn + real list list list" where
  "strip c dr surfaces =
     (if Nw (resolution c) \<le> 0 \<or> batch_size c < 0 then Inl RuntimeError
      else strip_loop surfaces
             (replicate (nat (batch_size c)) (replicate (nat (Nw (resolution c))) False))
             (nw_index_choices dr))"

text \<open>
  \<^verbatim>\<open>__next__\<close> returns what it yields or raises, and the object as the call leaves it (the
  position is incremented before anything that can raise later).
\<close>

definition SurfaceGenerator_next :: "data_processing \<Rightarrow> store \<Rightarrow> SurfaceGenerator \<Rightarrow> draws
    \<Rightarrow> (exn + real list list list \<times> real list list) \<times> SurfaceGenerator" where
  "SurfaceGenerator_next d s self dr =
     (case index self of
        None \<Rightarrow> (Inl AttributeError, self)
      | Some i \<Rightarrow>
          (case num_batches self of
             None \<Rightarrow> (Inl AttributeError, self)
           | Some n \<Rightarrow>
               if i \<ge> n then (Inl StopIteration, self)
               else
                 let self' = self\<lparr>index := Some (i + 1)\<rparr>;
                     c = s (config self');
                     (surfaces, features) = run_generation d c self' dr
                 in if \<not> strip_nw self' then (Inr (surfaces, features), self')
                    else (case strip c dr surfaces of
                            Inl e \<Rightarrow> (Inl e, self')
                          | Inr surfaces' \<Rightarrow> (Inr (surfaces', features), self'))))"

text \<open>
  A \<^verbatim>\<open>for\<close> loop over the generator calls \<^verbatim>\<open>__next__\<close> until it raises. \<open>iterate\<close> collects
  what the calls yield and returns it with the exception that ended the loop and the
  object at that moment; call number \<open>k\<close> uses the draws \<open>src k\<close>. The loop ends because
  every call that yields moves the position one step towards \<^verbatim>\<open>num_batches\<close>.
\<close>

definition remaining :: "SurfaceGenerator \<Rightarrow> nat" where
  "remaining self =
     (case (index self, num_batches self) of
        (Some i, Some n) \<Rightarrow> nat (n - i)
      | _ \<Rightarrow> 0)"

lemma SurfaceGenerator_next_Inr:
  assumes "SurfaceGenerator_next d s self dr = (Inr batch, self')"
  shows "\<exists>i n. index self = Some i \<and> num_batches self = Some n \<and> i < n
           \<and> self' = self\<lparr>index := Some (i + 1)\<rparr>"
  using assms
  by (auto simp: SurfaceGenerator_next_def Let_def
           split: option.splits if_splits prod.splits sum.splits)

function iterate :: "data_processing \<Rightarrow> store \<Rightarrow> (nat \<Rightarrow> draws) \<Rightarrow> nat \<Rightarrow> SurfaceGenerator
    \<Rightarrow> (real list list list \<times> real list list) list \<times> exn \<times> SurfaceGenerator" where
  "iterate d s src k self =
     (case SurfaceGenerator_next d s self (src k) of
        (Inl e, self') \<Rightarrow> ([], e, self')
      | (Inr batch, self') \<Rightarrow>
          (case iterate d s src (Suc k) self' of
             (batches, e, self'') \<Rightarrow> (batch # batches, e, self'')))"
  by pat_completeness auto
termination
proof (relation "measure (\<lambda>(d, s, src, k, self). remaining self)")
  show "wf (measure (\<lambda>(d, s, src, k, self). remaining self))" by simp
next
  fix d s and src :: "nat \<Rightarrow> draws" and k :: nat and self x1 x2 batch
  assume "(x1, x2) = SurfaceGenerator_next d s self (src k)" "x1 = Inr batch"
  then have "SurfaceGenerator_next d s self (src k) = (Inr batch, x2)" by simp
  from SurfaceGenerator_next_Inr[OF this]
  show "((d, s, src, Suc k, x2), (d, s, src, k, self))
          \<in> measure (\<lambda>(d, s, src, k, self). remaining self)"
    by (auto simp: remaining_def)
qed

declare iterate.simps [simp del]

text \<open>\<^verbatim>\<open>for surfaces, features in generator(n): ...\<close>\<close>

definition for_loop :: "data_processing \<Rightarrow> store \<Rightarrow> (nat \<Rightarrow> draws) \<Rightarrow> SurfaceGenerator \<Rightarrow> int
    \<Rightarrow> (real list list list \<times> real list list) list \<times> exn \<times> SurfaceGenerator" where
  "for_loop d s src self n =
     iterate d s src 0 (SurfaceGenerator_iter (SurfaceGenerator_call self n))"

section \<open>\<^verbatim>\<open>VoxelImageGenerator\<close>\<close>

text \<open>
  The attributes of a \<^verbatim>\<open>VoxelImageGenerator\<close>. \<^verbatim>\<open>self.config\<close> is the reference it was given
  (\<open>v_config\<close>); \<^verbatim>\<open>self.surface_generator\<close> is an object of its own. The attribute
  \<^verbatim>\<open>_surface_generator_iter\<close> is, once \<^verbatim>\<open>__iter__\<close> has set it, that same surface generator
  (its \<^verbatim>\<open>__call__\<close> and \<^verbatim>\<open>__iter__\<close> return \<^verbatim>\<open>self\<close>), so the model records only whether
  it is set.
\<close>

record VoxelImageGenerator =
  v_config :: ref
  grid_values :: "real list"
  v_strip_nw :: bool
  surface_generator :: SurfaceGenerator
  v_num_batches :: "int option"
  surface_generator_iter :: bool

text \<open>
  \<^verbatim>\<open>VoxelImageGenerator.__init__\<close> assigns a new resolution to the configuration it was
  given, through the reference, before anything that can raise; so the store is returned
  whether the construction succeeds or not.
\<close>

definition VoxelImageGenerator_init :: "data_processing \<Rightarrow> store \<Rightarrow> ref \<Rightarrow> bool
    \<Rightarrow> (exn + VoxelImageGenerator) \<times> store" where
  "VoxelImageGenerator_init d s cfg flag =
     (let r = resolution (s cfg);
          s' = s(cfg := (s cfg)\<lparr>resolution :=
                  \<lparr>phi = phi r + 1, Nw = Nw r + 1, eta_sp = eta_sp r + 1\<rparr>\<rparr>);
          c = s' cfg
      in case geomspace (min_r (eta_sp_range c)) (max_r (eta_sp_range c))
                (eta_sp (resolution c)) of
           Inl e \<Rightarrow> (Inl e, s')
         | Inr edges \<Rightarrow>
             (case SurfaceGenerator_init s' cfg flag of
                Inl e \<Rightarrow> (Inl e, s')
              | Inr sg \<Rightarrow>
                  (Inr \<lparr>v_config = cfg,
                        grid_values = map (\<lambda>v. preprocess_eta_sp d v (eta_sp_range c)) edges,
                        v_strip_nw = flag, surface_generator = sg,
                        v_num_batches = None, surface_generator_iter = False\<rparr>, s')))"

definition VoxelImageGenerator_call :: "VoxelImageGenerator \<Rightarrow> int \<Rightarrow> VoxelImageGenerator" where
  "VoxelImageGenerator_call self n = self\<lparr>v_num_batches := Some n\<rparr>"

definition VoxelImageGenerator_iter :: "VoxelImageGenerator \<Rightarrow> exn + VoxelImageGenerator" where
  "VoxelImageGenerator_iter self =
     (case v_num_batches self of
        None \<Rightarrow> Inl AttributeError
      | Some n \<Rightarrow>
          Inr (self\<lparr>surface_generator :=
                       SurfaceGenerator_iter (SurfaceGenerator_call (surface_generator self) n),
                    surface_generator_iter := True\<rparr>))"

text \<open>
  \<^verbatim>\<open>surfaces.reshape((B, P, W, 1))\<close> reads the entries in row-major order into the new
  shape and raises RuntimeError when their number is not \<open>B * P * W\<close>. The trailing axis
  of length one is added by \<open>tile_last\<close> below. A negative entry of the shape is refused
  here; no generator gets this far with a negative count, since sampling a negative
  batch size and \<^verbatim>\<open>numpy.geomspace\<close> with a negative count raise before.
\<close>

definition reshape :: "int \<Rightarrow> int \<Rightarrow> int \<Rightarrow> real list list list \<Rightarrow> exn + real list list list" where
  "reshape B P W t =
     (let flat = concat (map concat t) in
      if B < 0 \<or> P < 0 \<or> W < 0 \<or> int (length flat) \<noteq> B * P * W then Inl RuntimeError
      else Inr (map (\<lambda>b. map (\<lambda>p. map (\<lambda>w. flat ! (b * nat P * nat W + p * nat W + w))
                                   [0..<nat W]) [0..<nat P]) [0..<nat B]))"

text \<open>\<^verbatim>\<open>torch.tile(x, (1, 1, 1, E))\<close> on a tensor whose last axis has length one.\<close>

definition tile_last :: "nat \<Rightarrow> real list list list \<Rightarrow> real list list list list" where
  "tile_last E t = map (map (map (\<lambda>v. replicate E v))) t"

text \<open>
  A comparison along the last axis with broadcasting: equal lengths are compared entry by
  entry, an operand of length one is repeated. The caller refuses every other pair of
  lengths.
\<close>

definition compare_last :: "(real \<Rightarrow> real \<Rightarrow> bool) \<Rightarrow> real list \<Rightarrow> real list \<Rightarrow> bool list" where
  "compare_last f xs ys =
     (if length xs = length ys then map (\<lambda>(x, y). f x y) (zip xs ys)
      else if length xs = 1 then map (\<lambda>y. f (hd xs) y) ys
      else map (\<lambda>x. f x (hd ys)) xs)"

text \<open>
  The body of \<^verbatim>\<open>VoxelImageGenerator.__next__\<close> after the surfaces have been drawn:
  \<open>lower\<close> is \<^verbatim>\<open>surfaces[:, :-1, :-1, :-1]\<close>, \<open>upper\<close> is \<^verbatim>\<open>surfaces[:, 1:, 1:, 1:]\<close>, and the
  image is their conjunction as 0 or 1.
\<close>

definition voxelize :: "int \<Rightarrow> int \<Rightarrow> int \<Rightarrow> int \<Rightarrow> real list list list \<Rightarrow> real list
    \<Rightarrow> exn + int list list list list" where
  "voxelize B P W E surfaces grid =
     (case reshape B P W surfaces of
        Inl e \<Rightarrow> Inl e
      | Inr r \<Rightarrow>
          if E < 0 then Inl RuntimeError
          else
            let tiled = tile_last (nat E) r;
                lower = map (\<lambda>plane. map (\<lambda>row. map butlast (butlast row)) (butlast plane)) tiled;
                upper = map (\<lambda>plane. map (\<lambda>row. map tl (tl row)) (tl plane)) tiled;
                n1 = nat E - 1;
                n2 = length grid - 1
            in if n1 \<noteq> n2 \<and> n1 \<noteq> 1 \<and> n2 \<noteq> 1 then Inl RuntimeError
               else Inr (map2 (map2 (map2 (\<lambda>lo up.
                      map2 (\<lambda>x y. if x \<and> y then 1 else 0)
                        (compare_last (\<lambda>a b. a < b) lo (tl grid))
                        (compare_last (\<lambda>a b. a > b) up (butlast grid)))))
                    lower upper))"

definition VoxelImageGenerator_next :: "data_processing \<Rightarrow> store \<Rightarrow> VoxelImageGenerator \<Rightarrow> draws
    \<Rightarrow> (exn + int list list list list \<times> real list list) \<times> VoxelImageGenerator" where
  "VoxelImageGenerator_next d s self dr =
     (if \<not> surface_generator_iter self then (Inl AttributeError, self)
      else
        case SurfaceGenerator_next d s (surface_generator self) dr of
          (Inl e, sg) \<Rightarrow> (Inl e, self\<lparr>surface_generator := sg\<rparr>)
        | (Inr (surfaces, features), sg) \<Rightarrow>
            let c = s (v_config self);
                self' = self\<lparr>surface_generator := sg\<rparr>
            in (case voxelize (batch_size c) (phi (resolution c)) (Nw (resolution c))
                       (eta_sp (resolution c)) surfaces (grid_values self) of
                  Inl e \<Rightarrow> (Inl e, self')
                | Inr img \<Rightarrow> (Inr (img, features), self')))"

section \<open>Notions the statements use\<close>

text \<open>
  The flat three-way minimum, as the specification words it: each of the three candidate
  expressions for the entanglement strand length evaluated on its own, and the least of
  the three taken.
\<close>

definition mixed_Ne_flat :: "real \<Rightarrow> real \<Rightarrow> real \<Rightarrow> real \<Rightarrow> real" where
  "mixed_Ne_flat Bg Bth Pe ph =
     Pe ^ 2 * Min {Bth powr (0.944 / 0.528) / Bg powr (2 / 0.528) * mixed_g Bg Bth ph,
                   Bth ^ 2 * ph powr (- 4 / 3),
                   mixed_g Bg Bth ph}"

text \<open>
  The stripping stage can raise (a non-positive \<^verbatim>\<open>resolution.Nw\<close>, a mask whose length is not
  the number of rows of a surface). \<open>strip_safe\<close> holds of a generator for which it cannot:
  either the flag is off, or the counts are in range and the concentration grid has
  \<^verbatim>\<open>resolution.Nw\<close> points.
\<close>

definition strip_safe :: "store \<Rightarrow> SurfaceGenerator \<Rightarrow> bool" where
  "strip_safe s self =
     (if strip_nw self
      then 0 < Nw (resolution (s (config self))) \<and> 0 \<le> batch_size (s (config self))
           \<and> int (length (self_phi self)) = Nw (resolution (s (config self)))
      else True)"

text \<open>
  Point \<open>i\<close> of the geometric sequence of \<open>n\<close> points from \<open>a\<close> to \<open>b\<close>, endpoints included.
\<close>

definition geometric :: "real \<Rightarrow> real \<Rightarrow> int \<Rightarrow> nat \<Rightarrow> real" where
  "geometric a b n i = a * (b / a) powr (real i / real_of_int (n - 1))"

text \<open>
  An axis is valid when its lower bound is positive, its upper bound is above the lower
  one and it has at least two points.
\<close>

definition valid_axis :: "Range \<Rightarrow> int \<Rightarrow> bool" where
  "valid_axis r n = (0 < min_r r \<and> min_r r < max_r r \<and> 2 \<le> n)"

text \<open>A tensor of shape \<open>(B, P, W)\<close>: \<open>B\<close> planes of \<open>P\<close> rows of \<open>W\<close> entries.\<close>

definition has_shape :: "nat \<Rightarrow> nat \<Rightarrow> nat \<Rightarrow> real list list list \<Rightarrow> bool" where
  "has_shape B P W t =
     (length t = B \<and> list_all (\<lambda>plane. length plane = P \<and> list_all (\<lambda>row. length row = W) plane) t)"

text \<open>
  The bins of one cell of the image, from the surface value \<open>lo\<close> at the lower corner of the
  cell and the value \<open>up\<close> at its upper corner.
\<close>

definition cell :: "real list \<Rightarrow> real \<Rightarrow> real \<Rightarrow> int list" where
  "cell grid lo up =
     map (\<lambda>e. if lo < grid ! (e + 1) \<and> up > grid ! e then 1 else 0) [0..<length grid - 1]"

section \<open>Examples\<close>

text \<open>
  Concrete inputs, used where a theorem is applied to a particular case: a generator and
  the draws of one call for a batch of two.
\<close>

definition example_generator :: SurfaceGenerator where
  "example_generator =
     \<lparr>self_phi = [1, 2], self_Nw = [1, 10, 100], generation_function = Good_generation,
      config = 0, strip_nw = False, num_batches = None, index = None\<rparr>"

definition example_draws :: draws where
  "example_draws =
     \<lparr>Bg_sample = [1, 2], Bth_sample = [1, 2], Pe_sample = [3, 4], rand_sample = [0, 1 / 2],
      nw_index_choices = [[0, 0, 0, 0, 0, 0, 0, 0], [0, 1, 0, 1, 0, 1, 0, 1]]\<rparr>"

text \<open>
  A configuration, data-processing functions that leave every value as it is, and a
  generator that strips.
\<close>

definition example_config :: Config where
  "example_config =
     \<lparr>device = ''cpu'', resolution = \<lparr>phi = 3, Nw = 3, eta_sp = 4\<rparr>, mode = MIXED,
      phi_range = \<lparr>min_r = 1 / 1000, max_r = 1 / 10\<rparr>,
      nw_range = \<lparr>min_r = 10, max_r = 1000\<rparr>,
      eta_sp_range = \<lparr>min_r = 1, max_r = 1000\<rparr>,
      bg_range = \<lparr>min_r = 0.36, max_r = 1.55\<rparr>,
      bth_range = \<lparr>min_r = 0.22, max_r = 0.82\<rparr>,
      pe_range = \<lparr>min_r = 3.2, max_r = 13.5\<rparr>,
      batch_size = 2\<rparr>"

definition example_data :: data_processing where
  "example_data = \<lparr>preprocess_eta_sp = (\<lambda>v r. v), normalize_feature = (\<lambda>v r. v)\<rparr>"


text \<open>A configuration that asks for a single cell, and what the construction makes of it.\<close>

definition single_cell_config :: Config where
  "single_cell_config = example_config\<lparr>resolution := \<lparr>phi = 1, Nw = 1, eta_sp = 1\<rparr>\<rparr>"

definition single_cell_generator :: VoxelImageGenerator where
  "single_cell_generator =
     \<lparr>v_config = 0, grid_values = [1, 1000], v_strip_nw = False,
      surface_generator =
        \<lparr>self_phi = [1 / 1000, 1 / 10], self_Nw = [10, 1000],
         generation_function = Mixed_generation, config = 0, strip_nw = False,
         num_batches = None, index = None\<rparr>,
      v_num_batches = None, surface_generator_iter = False\<rparr>"

definition single_cell_store :: store where
  "single_cell_store =
     (\<lambda>r. single_cell_config)
       (0 := single_cell_config\<lparr>resolution := \<lparr>phi = 2, Nw = 2, eta_sp = 2\<rparr>\<rparr>)"

text \<open>A generator with a \<open>2 \<times> 2\<close> grid that strips, at the start of its single batch.\<close>

definition square_config :: Config where
  "square_config =
     example_config\<lparr>resolution := \<lparr>phi = 2, Nw = 2, eta_sp = 4\<rparr>, mode := GOOD, batch_size := 1\<rparr>"

definition square_generator :: SurfaceGenerator where
  "square_generator =
     \<lparr>self_phi = [1, 2], self_Nw = [10, 100], generation_function = Good_generation,
      config = 0, strip_nw = True, num_batches = Some 1, index = Some 0\<rparr>"

definition square_draws :: draws where
  "square_draws =
     \<lparr>Bg_sample = [1], Bth_sample = [], Pe_sample = [3], rand_sample = [],
      nw_index_choices = [[1, 1, 1, 1, 1, 1, 1, 1]]\<rparr>"

text \<open>The case of the specification: a batch of one and \<^verbatim>\<open>resolution.Nw = 64\<close>.\<close>

definition spec_example_config :: Config where
  "spec_example_config =
     example_config\<lparr>resolution := \<lparr>phi = 64, Nw = 64, eta_sp = 4\<rparr>, batch_size := 1\<rparr>"

text \<open>
  One surface on a \<open>3 \<times> 3\<close> grid with four bin edges. The lower corner of the first cell
  sits on edge 2 and its upper corner on edge 3: the cell is in the bin between these
  edges and in neither neighbour.
\<close>

definition example_surfaces :: "real list list list" where
  "example_surfaces = [[[2, 1.5, 1.5], [1.5, 3, 2.5], [1.5, 2.5, 2.5]]]"

text \<open>
  A grid of two concentrations and three chain lengths, and a generator on it that
  strips.
\<close>

definition rectangular_config :: Config where
  "rectangular_config = example_config\<lparr>resolution := \<lparr>phi = 2, Nw = 3, eta_sp = 4\<rparr>\<rparr>"


section \<open>The closed forms: entries, monotonicity, minima\<close>

lemma broadcast_shape:
  "length (broadcast f params phis Nws) = length params"
  "plane \<in> set (broadcast f params phis Nws) \<Longrightarrow> length plane = length phis"
  "plane \<in> set (broadcast f params phis Nws) \<Longrightarrow> row \<in> set plane \<Longrightarrow> length row = length Nws"
  by (auto simp: broadcast_def)

lemma broadcast_nth:
  "b < length params \<Longrightarrow> p < length phis \<Longrightarrow> w < length Nws \<Longrightarrow>
   broadcast f params phis Nws ! b ! p ! w = f (params ! b) (phis ! p) (Nws ! w)"
  by (simp add: broadcast_def)

text \<open>
  Claim C1. In GOOD mode the raw surface has shape \<open>(batch, P, W)\<close>, and its entry at batch
  element \<open>b\<close>, concentration index \<open>p\<close> and chain-length index \<open>w\<close> is
  \<open>N * (1 + (N / (Pe\<^sup>2 * g))\<^sup>2) * min (1 / g) (ph / Bg powr (1 / (1 - 0.588)))\<close> with the blob
  size \<open>g = Bg powr (3 / 0.764) / ph powr (1 / 0.764)\<close>, where \<open>Bg\<close> and \<open>Pe\<close> are the
  parameters of element \<open>b\<close>, \<open>ph\<close> is grid concentration \<open>p\<close> and \<open>N\<close> is grid chain length \<open>w\<close>.
\<close>

theorem good_raw_entry:
  assumes "length (Bg_sample dr) = batch" "length (Pe_sample dr) = batch"
    and "b < batch" "p < length (self_phi self)" "w < length (self_Nw self)"
  shows "length (good_raw self dr) = batch
       \<and> (\<forall>plane \<in> set (good_raw self dr). length plane = length (self_phi self)
            \<and> (\<forall>row \<in> set plane. length row = length (self_Nw self)))
       \<and> good_raw self dr ! b ! p ! w =
           (let Bg = Bg_sample dr ! b; Pe = Pe_sample dr ! b;
                ph = self_phi self ! p; N = self_Nw self ! w;
                g = Bg powr (3 / 0.764) / ph powr (1 / 0.764)
            in N * (1 + (N / (Pe ^ 2 * g)) ^ 2) * min (1 / g) (ph / Bg powr (1 / (1 - 0.588))))"
proof -
  have len: "length (zip (Bg_sample dr) (Pe_sample dr)) = batch"
    using assms(1,2) by simp
  have shape: "length (good_raw self dr) = batch"
    unfolding good_raw_def broadcast_shape(1) by (rule len)
  have planes: "\<forall>plane \<in> set (good_raw self dr). length plane = length (self_phi self)
            \<and> (\<forall>row \<in> set plane. length row = length (self_Nw self))"
    unfolding good_raw_def using broadcast_shape(2,3) by blast
  have "good_raw self dr ! b ! p ! w
          = good_eta_sp (Bg_sample dr ! b) (Pe_sample dr ! b) (self_phi self ! p) (self_Nw self ! w)"
    unfolding good_raw_def using assms(3,4,5) len by (subst broadcast_nth) auto
  then show ?thesis
    using shape planes by (simp add: good_eta_sp_def good_g_def Let_def divide_divide_eq_left)
qed

theorem good_raw_entry_witness:
  "length (Bg_sample example_draws) = 2 \<and> length (Pe_sample example_draws) = 2
   \<and> (1::nat) < 2 \<and> 1 < length (self_phi example_generator)
   \<and> 2 < length (self_Nw example_generator)
   \<and> length (good_raw example_generator example_draws) = 2
   \<and> good_raw example_generator example_draws ! 1 ! 1 ! 2 =
       (let g = 2 powr (3 / 0.764) / 2 powr (1 / 0.764)
        in 100 * (1 + (100 / (4 ^ 2 * g)) ^ 2) * min (1 / g) (2 / 2 powr (1 / (1 - 0.588))))"
  using good_raw_entry[where dr = example_draws and batch = 2 and b = 1
      and self = example_generator and p = 1 and w = 2]
  by (simp add: example_generator_def example_draws_def)

lemma crossover_strict_mono:
  fixes N1 N2 k c :: real
  assumes "0 < N1" "N1 < N2" "0 < c"
  shows "N1 * (1 + (N1 / k) ^ 2) * c < N2 * (1 + (N2 / k) ^ 2) * c"
proof -
  have "N1 ^ 2 \<le> N2 ^ 2" using assms by (simp add: power_mono)
  then have "(N1 / k) ^ 2 \<le> (N2 / k) ^ 2"
    by (simp add: power_divide divide_right_mono)
  then have "1 + (N1 / k) ^ 2 \<le> 1 + (N2 / k) ^ 2" by simp
  moreover have "0 < 1 + (N1 / k) ^ 2" by (simp add: add_pos_nonneg)
  ultimately have "N1 * (1 + (N1 / k) ^ 2) < N2 * (1 + (N2 / k) ^ 2)"
    using assms by (intro mult_less_le_imp_less) auto
  then show ?thesis using assms by simp
qed

lemma good_g_pos: "0 < Bg \<Longrightarrow> 0 < ph \<Longrightarrow> 0 < good_g Bg ph"
  by (simp add: good_g_def)

lemma theta_g_pos: "0 < Bth \<Longrightarrow> 0 < ph \<Longrightarrow> 0 < theta_g Bth ph"
  by (simp add: theta_g_def)

lemma mixed_g_pos: "0 < Bg \<Longrightarrow> 0 < Bth \<Longrightarrow> 0 < ph \<Longrightarrow> 0 < mixed_g Bg Bth ph"
  by (simp add: mixed_g_def)

text \<open>
  Claim C8. In each of the three modes, with the blob parameters, the packing number and
  a positive concentration held fixed, the raw specific viscosity grows strictly with
  the chain length: a larger positive \<open>N\<close> gives a larger \<open>eta_sp\<close>.
\<close>

theorem eta_sp_increasing_in_N:
  assumes "0 < Bg" "0 < Bth" "0 < ph" "0 < N1" "N1 < N2"
  shows "good_eta_sp Bg Pe ph N1 < good_eta_sp Bg Pe ph N2
       \<and> theta_eta_sp Bth Pe ph N1 < theta_eta_sp Bth Pe ph N2
       \<and> mixed_eta_sp Bg Bth Pe ph N1 < mixed_eta_sp Bg Bth Pe ph N2"
proof (intro conjI)
  have "0 < min (1 / good_g Bg ph) (ph / Bg powr (1 / (1 - 0.588)))"
    using assms good_g_pos[of Bg ph] by simp
  from crossover_strict_mono[OF assms(4,5) this, of "Pe ^ 2 * good_g Bg ph"]
  show "good_eta_sp Bg Pe ph N1 < good_eta_sp Bg Pe ph N2"
    by (simp add: good_eta_sp_def divide_divide_eq_left)
next
  have "0 < min (1 / theta_g Bth ph) (ph / Bth ^ 2)"
    using assms theta_g_pos[of Bth ph] by simp
  from crossover_strict_mono[OF assms(4,5) this, of "theta_Ne Bth Pe ph"]
  show "theta_eta_sp Bth Pe ph N1 < theta_eta_sp Bth Pe ph N2"
    by (simp add: theta_eta_sp_def)
next
  have "0 < min (1 / mixed_g Bg Bth ph) (ph / Bth ^ 2)"
    using assms mixed_g_pos[of Bg Bth ph] by simp
  from crossover_strict_mono[OF assms(4,5) this, of "mixed_Ne Bg Bth Pe ph"]
  show "mixed_eta_sp Bg Bth Pe ph N1 < mixed_eta_sp Bg Bth Pe ph N2"
    by (simp add: mixed_eta_sp_def)
qed

theorem eta_sp_increasing_in_N_witness:
  "(0::real) < 2 \<and> (0::real) < 3 \<and> (0::real) < 5 \<and> (0::real) < 10 \<and> (10::real) < 100
   \<and> good_eta_sp 2 7 5 10 < good_eta_sp 2 7 5 100
   \<and> theta_eta_sp 3 7 5 10 < theta_eta_sp 3 7 5 100
   \<and> mixed_eta_sp 2 3 7 5 10 < mixed_eta_sp 2 3 7 5 100"
  using eta_sp_increasing_in_N[where Bg = 2 and Bth = 3 and ph = 5 and ?N1.0 = 10
      and ?N2.0 = 100 and Pe = 7] by simp

lemma nested_min_is_Min: "min (min a b) c = Min {a, b, (c::real)}"
  by (simp add: min.commute min.left_commute)

text \<open>
  Claim C9, as amended. The nested minimum that MIXED mode computes for \<open>Ne\<close> is the flat
  three-way minimum of the three candidate expressions, on every input.
\<close>

theorem mixed_Ne_is_flat_minimum:
  "mixed_Ne Bg Bth Pe ph = mixed_Ne_flat Bg Bth Pe ph"
  unfolding mixed_Ne_def mixed_Ne_flat_def by (simp only: nested_min_is_Min)

text \<open>
  Claim C9 as stated asks for an input on which the nested minimum and the flat minimum
  differ. There is none.
\<close>

theorem mixed_Ne_never_differs:
  "\<not> (\<exists>Bg Bth Pe ph. mixed_Ne Bg Bth Pe ph \<noteq> mixed_Ne_flat Bg Bth Pe ph)"
  unfolding mixed_Ne_def mixed_Ne_flat_def by (simp only: nested_min_is_Min) simp

section \<open>The iterator protocol: counting the batches\<close>

lemma length_set_true: "length (set_true m cs) = length m"
  unfolding set_true_def by (induction cs arbitrary: m) auto

lemma strip_loop_total:
  assumes "\<And>surface. surface \<in> set surfaces \<Longrightarrow> length surface = n"
    and "\<And>m. m \<in> set to_keep \<Longrightarrow> length m = n"
  shows "\<exists>out. strip_loop surfaces to_keep choices = Inr out"
  using assms
proof (induction surfaces to_keep choices rule: strip_loop.induct)
  case (1 surface surfaces to_keep_b to_keep choices_b choices)
  have "length surface = length (set_true to_keep_b choices_b)"
    using 1(2)[of surface] 1(3)[of to_keep_b] by (simp add: length_set_true)
  then obtain surface' where m: "mask_rows surface (set_true to_keep_b choices_b) = Inr surface'"
    by (simp add: mask_rows_def)
  have "\<exists>out. strip_loop surfaces to_keep choices = Inr out"
    by (rule 1(1)[OF m]) (simp_all add: 1(2) 1(3))
  then show ?case using m by auto
qed auto

lemma run_generation_rows:
  "surface \<in> set (fst (run_generation d c self dr)) \<Longrightarrow> length surface = length (self_phi self)"
  by (cases "generation_function self")
     (auto simp: run_generation_def good_generation_def mixed_generation_def theta_generation_def
        map_tensor_def good_raw_def mixed_raw_def theta_raw_def broadcast_def)

lemma strip_total:
  assumes "0 < Nw (resolution c)" "0 \<le> batch_size c"
    and "int (length (self_phi self)) = Nw (resolution c)"
  shows "\<exists>out. strip c dr (fst (run_generation d c self dr)) = Inr out"
proof -
  have "\<exists>out. strip_loop (fst (run_generation d c self dr))
          (replicate (nat (batch_size c)) (replicate (nat (Nw (resolution c))) False))
          (nw_index_choices dr) = Inr out"
  proof (rule strip_loop_total[where n = "length (self_phi self)"])
    fix surface assume "surface \<in> set (fst (run_generation d c self dr))"
    then show "length surface = length (self_phi self)" by (rule run_generation_rows)
  next
    fix m assume "m \<in> set (replicate (nat (batch_size c)) (replicate (nat (Nw (resolution c))) False))"
    then show "length m = length (self_phi self)" using assms(3) by auto
  qed
  then show ?thesis using assms by (simp add: strip_def)
qed

lemma next_yields:
  assumes "index self = Some i" "num_batches self = Some n" "i < n" "strip_safe s self"
  shows "\<exists>batch. SurfaceGenerator_next d s self dr = (Inr batch, self\<lparr>index := Some (i + 1)\<rparr>)"
proof (cases "strip_nw self")
  case False
  then show ?thesis using assms
    by (simp add: SurfaceGenerator_next_def Let_def split: prod.splits)
next
  case True
  define self' where "self' = self\<lparr>index := Some (i + 1)\<rparr>"
  define c where "c = s (config self)"
  have *: "0 < Nw (resolution c)" "0 \<le> batch_size c" "int (length (self_phi self')) = Nw (resolution c)"
    using assms(4) True by (simp_all add: strip_safe_def c_def self'_def)
  obtain surfaces features where rg: "run_generation d c self' dr = (surfaces, features)"
    by (cases "run_generation d c self' dr")
  from strip_total[OF *, of dr d] obtain out where out: "strip c dr surfaces = Inr out"
    using rg by auto
  show ?thesis using assms(1,2,3) True out rg
    by (simp add: SurfaceGenerator_next_def Let_def self'_def c_def)
qed

lemma next_stops:
  assumes "index self = Some i" "num_batches self = Some n" "n \<le> i"
  shows "SurfaceGenerator_next d s self dr = (Inl StopIteration, self)"
  using assms by (simp add: SurfaceGenerator_next_def)

lemma strip_safe_index [simp]: "strip_safe s (self\<lparr>index := v\<rparr>) = strip_safe s self"
  by (simp add: strip_safe_def)

lemma strip_safe_num_batches [simp]: "strip_safe s (self\<lparr>num_batches := v\<rparr>) = strip_safe s self"
  by (simp add: strip_safe_def)

lemma iterate_counts:
  assumes "index self = Some i" "num_batches self = Some n" "strip_safe s self"
  shows "\<exists>batches. iterate d s src k self = (batches, StopIteration, self\<lparr>index := Some (max i n)\<rparr>)
           \<and> length batches = nat (n - i)"
  using assms
proof (induction "nat (n - i)" arbitrary: self i k)
  case 0
  then have le: "n \<le> i" by simp
  then have "self\<lparr>index := Some (max i n)\<rparr> = self"
    using 0(2) by (simp add: max_def)
  then show ?case
    using next_stops[OF 0(2,3) le, of d s "src k"] le by (simp add: iterate.simps)
next
  case (Suc m)
  then have lt: "i < n" by simp
  from next_yields[OF Suc(3,4) lt Suc(5), of d "src k"] obtain batch
    where nx: "SurfaceGenerator_next d s self (src k) = (Inr batch, self\<lparr>index := Some (i + 1)\<rparr>)"
    by blast
  have "m = nat (n - (i + 1))" using Suc(2) by simp
  from Suc(1)[OF this, of "self\<lparr>index := Some (i + 1)\<rparr>" "Suc k"] Suc(4,5)
  obtain batches where it:
    "iterate d s src (Suc k) (self\<lparr>index := Some (i + 1)\<rparr>)
       = (batches, StopIteration, self\<lparr>index := Some (i + 1), index := Some (max (i + 1) n)\<rparr>)"
    "length batches = nat (n - (i + 1))"
    by auto
  have "max (i + 1) n = max i n" using lt by simp
  then show ?case using nx it lt
    by (subst iterate.simps) (simp add: nat_diff_distrib)
qed

lemma for_loop_result:
  assumes "strip_safe s self"
  shows "\<exists>batches. for_loop d s src self n
            = (batches, StopIteration, self\<lparr>num_batches := Some n, index := Some (max 0 n)\<rparr>)
          \<and> length batches = nat n"
  using iterate_counts[of "SurfaceGenerator_iter (SurfaceGenerator_call self n)" 0 n s d src 0] assms
  by (simp add: for_loop_def SurfaceGenerator_iter_def SurfaceGenerator_call_def)




text \<open>
  Claim C7, as amended. \<^verbatim>\<open>call(n)\<close> stores the number of batches and leaves the position as
  it is; the position is set to zero by \<^verbatim>\<open>__iter__\<close>, which a \<^verbatim>\<open>for\<close> loop invokes on what
  \<^verbatim>\<open>call\<close> returns. After \<^verbatim>\<open>call(n)\<close> and \<^verbatim>\<open>__iter__\<close> the generator is ready at position 0
  with \<open>n\<close> batches to go, whatever its state was before.
\<close>

theorem call_keeps_index:
  "index (SurfaceGenerator_call self n) = index self
   \<and> num_batches (SurfaceGenerator_call self n) = Some n
   \<and> index (SurfaceGenerator_iter (SurfaceGenerator_call self n)) = Some 0
   \<and> num_batches (SurfaceGenerator_iter (SurfaceGenerator_call self n)) = Some n"
  by (simp add: SurfaceGenerator_call_def SurfaceGenerator_iter_def)

text \<open>
  Claim C7 as stated fails: on the generator that a loop over \<^verbatim>\<open>call(3)\<close> has exhausted,
  \<^verbatim>\<open>call(2)\<close> leaves the position at 3, and a \<^verbatim>\<open>__next__\<close> right after it raises
  StopIteration instead of yielding.
\<close>

theorem call_on_exhausted_generator:
  "index (SurfaceGenerator_call
            (snd (snd (for_loop example_data (\<lambda>r. example_config) (\<lambda>k. example_draws)
                         example_generator 3))) 2) = Some 3
   \<and> SurfaceGenerator_next example_data (\<lambda>r. example_config)
        (SurfaceGenerator_call
            (snd (snd (for_loop example_data (\<lambda>r. example_config) (\<lambda>k. example_draws)
                         example_generator 3))) 2) example_draws
      = (Inl StopIteration,
         example_generator\<lparr>num_batches := Some 2, index := Some 3\<rparr>)"
proof -
  have "strip_safe (\<lambda>r. example_config) example_generator"
    by (simp add: strip_safe_def example_generator_def)
  from for_loop_result[OF this, of example_data "\<lambda>k. example_draws" 3]
  have "snd (snd (for_loop example_data (\<lambda>r. example_config) (\<lambda>k. example_draws)
                         example_generator 3))
          = example_generator\<lparr>num_batches := Some 3, index := Some 3\<rparr>"
    by auto
  then show ?thesis
    by (simp add: SurfaceGenerator_call_def SurfaceGenerator_next_def)
qed

section \<open>The derived theta parameter of MIXED mode\<close>

text \<open>
  What holds of the derived parameter: for a draw \<open>0 \<le> u < 1\<close>, a positive \<open>Bg\<close> and a range
  with \<open>min < max\<close> it is at least the lower bound of the range and strictly below
  \<open>Bg powr (1 / 0.824) * (max - min) + min\<close>; it stays below the upper bound of the range
  when \<open>Bg \<le> 1\<close>.
\<close>

lemma mixed_Bth_bounds:
  assumes "0 \<le> u" "u < 1" "0 < Bg" "min_r r < max_r r"
  shows "min_r r \<le> mixed_Bth r u Bg"
    and "mixed_Bth r u Bg < Bg powr (1 / 0.824) * (max_r r - min_r r) + min_r r"
    and "Bg \<le> 1 \<Longrightarrow> mixed_Bth r u Bg < max_r r"
proof -
  have pos: "0 < Bg powr (1 / 0.824) * (max_r r - min_r r)" using assms by simp
  show "min_r r \<le> mixed_Bth r u Bg"
    using assms pos by (simp add: mixed_Bth_def)
  have "u * (Bg powr (1 / 0.824) * (max_r r - min_r r)) < 1 * (Bg powr (1 / 0.824) * (max_r r - min_r r))"
    using assms(2) pos by (rule mult_strict_right_mono)
  then show lt: "mixed_Bth r u Bg < Bg powr (1 / 0.824) * (max_r r - min_r r) + min_r r"
    by (simp add: mixed_Bth_def mult.assoc)
  assume "Bg \<le> 1"
  then have "Bg powr (1 / 0.824) \<le> 1 powr (1 / 0.824)"
    using assms(3) by (intro powr_mono2) auto
  then have "Bg powr (1 / 0.824) \<le> 1" by simp
  then have "Bg powr (1 / 0.824) * (max_r r - min_r r) \<le> 1 * (max_r r - min_r r)"
    using assms(4) by (intro mult_right_mono) auto
  then show "mixed_Bth r u Bg < max_r r" using lt by simp
qed

text \<open>
  Claim C2. The derived parameter is meant to stay within the configured range (the comment
  in \<^verbatim>\<open>_mixed_generation\<close> says so). It does not when \<open>Bg powr (1 / 0.824)\<close> exceeds one:
  with the range \<open>[0.22, 0.82]\<close>, the sample \<open>Bg = 1.5\<close> and the draw \<open>u = 0.9\<close> the computed
  value is above the upper bound.
\<close>

theorem mixed_Bth_leaves_range:
  "max_r (bth_range example_config)
     < fst (snd (mixed_params example_config
                   \<lparr>Bg_sample = [1.5], Bth_sample = [], Pe_sample = [8], rand_sample = [0.9],
                    nw_index_choices = []\<rparr> ! 0))"
proof -
  have "(1.5::real) powr 1 \<le> 1.5 powr (1 / 0.824)"
    by (rule powr_mono) simp_all
  then have "(1.5::real) \<le> 1.5 powr (1 / 0.824)" by simp
  then have "(0.82::real) < 0.9 * 1.5 powr (1 / 0.824) * (0.82 - 0.22) + 0.22" by simp
  then show ?thesis
    by (simp add: mixed_params_def mixed_Bth_def example_config_def)
qed

section \<open>Grid construction: what is built and what is refused\<close>

lemma geomspace_length:
  assumes "geomspace a b n = Inr xs"
  shows "int (length xs) = n"
  using assms
  by (auto simp: geomspace_def logspace_def linspace_def Let_def split: if_splits sum.splits)

lemma geometric_as_power_of_ten:
  assumes "0 < a" "0 < b"
  shows "10 powr (real i * ((log 10 b - log 10 a) / real_of_int (n - 1)) + log 10 a)
           = geometric a b n i"
proof -
  have "10 powr (real i * ((log 10 b - log 10 a) / real_of_int (n - 1)) + log 10 a)
          = (10 powr (log 10 b - log 10 a)) powr (real i / real_of_int (n - 1)) * 10 powr log 10 a"
    by (simp add: powr_add powr_powr mult.commute)
  also have "10 powr (log 10 b - log 10 a) = b / a"
    using assms by (simp add: powr_diff)
  also have "10 powr log 10 a = a" using assms by simp
  finally show ?thesis by (simp add: geometric_def mult.commute)
qed

lemma geometric_first: "0 < a \<Longrightarrow> 0 < b \<Longrightarrow> geometric a b n 0 = a"
  by (simp add: geometric_def)

lemma geometric_last:
  assumes "0 < a" "a < b" "2 \<le> n"
  shows "geometric a b n (nat n - 1) = b"
proof -
  have bpos: "0 < b" using assms by simp
  have n1: "real (nat n - 1) = real_of_int (n - 1)" "real_of_int (n - 1) \<noteq> 0"
    using assms by auto
  have "geometric a b n (nat n - 1) = a * (b / a) powr 1"
    unfolding geometric_def n1(1) using n1(2) by simp
  also have "\<dots> = b" using assms bpos by simp
  finally show ?thesis .
qed

lemma geomspace_valid:
  assumes "0 < a" "a < b" "2 \<le> n"
  shows "geomspace a b n = Inr (map (geometric a b n) [0..<nat n])"
proof -
  define f where "f = (\<lambda>i. real i * ((log 10 b - log 10 a) / real_of_int (n - 1)) + log 10 a)"
  define y where "y = map f [0..<nat n]"
  have bpos: "0 < b" using assms by simp
  have n1: "nat n - 1 < nat n" "0 < nat n" "real (nat n - 1) = real_of_int (n - 1)"
    using assms(3) by auto
  have "f (nat n - 1) = log 10 b"
    using assms(3) n1(3) by (simp add: f_def)
  then have y_last: "y[nat n - 1 := log 10 b] = y"
    using n1 by (simp add: y_def list_update_same_conv)
  have lin: "linspace (log 10 a) (log 10 b) n = Inr y"
    using assms(3) y_last by (simp add: linspace_def Let_def y_def f_def)
  define r where "r = map (\<lambda>v. 10 powr v) y"
  have log: "logspace (log 10 a) (log 10 b) n = Inr r"
    by (simp add: logspace_def lin r_def)
  have r_eq: "r = map (geometric a b n) [0..<nat n]"
    using geometric_as_power_of_ten[OF assms(1) bpos] by (simp add: r_def y_def f_def)
  have "r ! 0 = a" using n1 assms(1) bpos by (simp add: r_eq geometric_first)
  then have r0: "r[0 := a] = r" using n1 by (simp add: list_update_same_conv r_eq)
  have "r ! (nat n - 1) = b"
    using n1(1,2) geometric_last[OF assms] by (simp add: r_eq)
  then have r1: "r[nat n - Suc 0 := b] = r"
    using n1 by (simp add: list_update_same_conv r_eq)
  have "map ((*) 1) r = r" by (rule map_idI) simp
  then have "geomspace a b n = Inr r"
    using assms bpos by (simp add: geomspace_def log Let_def r0 r1)
  then show ?thesis by (simp add: r_eq)
qed

lemma geometric_strict_mono:
  assumes "0 < a" "a < b" "2 \<le> n" "i < j"
  shows "geometric a b n i < geometric a b n j"
proof -
  have "1 < b / a" using assms by simp
  moreover have "real i / real_of_int (n - 1) < real j / real_of_int (n - 1)"
    using assms by (simp add: divide_strict_right_mono)
  ultimately have "(b / a) powr (real i / real_of_int (n - 1))
                     < (b / a) powr (real j / real_of_int (n - 1))"
    by (simp add: powr_less_mono)
  then show ?thesis using assms(1) by (simp add: geometric_def)
qed

lemma geometric_axis:
  assumes "0 < a" "a < b" "2 \<le> n"
  shows "length (map (geometric a b n) [0..<nat n]) = nat n"
    and "hd (map (geometric a b n) [0..<nat n]) = a"
    and "last (map (geometric a b n) [0..<nat n]) = b"
    and "sorted_wrt (<) (map (geometric a b n) [0..<nat n])"
proof -
  have n1: "0 < nat n" "real (nat n - 1) = real_of_int (n - 1)" "[0..<nat n] \<noteq> []"
    using assms(3) by auto
  show "length (map (geometric a b n) [0..<nat n]) = nat n" by simp
  show "hd (map (geometric a b n) [0..<nat n]) = a"
    using n1 assms(1,2) by (simp add: hd_map geometric_first)
  show "last (map (geometric a b n) [0..<nat n]) = b"
    using n1(1,3) geometric_last[OF assms] by (simp add: last_map)
  have "sorted_wrt (\<lambda>i j. geometric a b n i < geometric a b n j) [0..<nat n]"
    by (rule sorted_wrt_mono_rel[OF _ sorted_wrt_upt]) (simp add: geometric_strict_mono[OF assms])
  then show "sorted_wrt (<) (map (geometric a b n) [0..<nat n])"
    by (simp add: sorted_wrt_map)
qed

text \<open>
  Claim C6, as amended. For a configuration whose concentration and chain-length axes are
  valid, the construction succeeds and each grid is the geometric sequence of the
  configured length from the lower to the upper bound, endpoints included, strictly
  increasing. The construction is a function of the configuration, and it checks nothing
  itself.
\<close>

theorem SurfaceGenerator_init_valid_axes:
  assumes "valid_axis (phi_range (s cfg)) (phi (resolution (s cfg)))"
    and "valid_axis (nw_range (s cfg)) (Nw (resolution (s cfg)))"
  shows "\<exists>g. SurfaceGenerator_init s cfg flag = Inr g
          \<and> self_phi g = map (geometric (min_r (phi_range (s cfg))) (max_r (phi_range (s cfg)))
                                (phi (resolution (s cfg)))) [0..<nat (phi (resolution (s cfg)))]
          \<and> int (length (self_phi g)) = phi (resolution (s cfg))
          \<and> hd (self_phi g) = min_r (phi_range (s cfg))
          \<and> last (self_phi g) = max_r (phi_range (s cfg))
          \<and> sorted_wrt (<) (self_phi g)
          \<and> self_Nw g = map (geometric (min_r (nw_range (s cfg))) (max_r (nw_range (s cfg)))
                               (Nw (resolution (s cfg)))) [0..<nat (Nw (resolution (s cfg)))]
          \<and> int (length (self_Nw g)) = Nw (resolution (s cfg))
          \<and> hd (self_Nw g) = min_r (nw_range (s cfg))
          \<and> last (self_Nw g) = max_r (nw_range (s cfg))
          \<and> sorted_wrt (<) (self_Nw g)"
proof -
  let ?c = "s cfg"
  have p: "0 < min_r (phi_range ?c)" "min_r (phi_range ?c) < max_r (phi_range ?c)"
      "2 \<le> phi (resolution ?c)"
    using assms(1) by (simp_all add: valid_axis_def)
  have w: "0 < min_r (nw_range ?c)" "min_r (nw_range ?c) < max_r (nw_range ?c)"
      "2 \<le> Nw (resolution ?c)"
    using assms(2) by (simp_all add: valid_axis_def)
  show ?thesis
    using geometric_axis[OF p] geometric_axis[OF w] p(3) w(3)
    by (simp add: SurfaceGenerator_init_def Let_def geomspace_valid[OF p] geomspace_valid[OF w])
qed

theorem SurfaceGenerator_init_valid_axes_witness:
  "valid_axis (phi_range example_config) (phi (resolution example_config))
   \<and> valid_axis (nw_range example_config) (Nw (resolution example_config))
   \<and> (\<exists>g. SurfaceGenerator_init (\<lambda>r. example_config) 0 False = Inr g
          \<and> int (length (self_phi g)) = 3
          \<and> hd (self_phi g) = 1 / 1000 \<and> last (self_phi g) = 1 / 10
          \<and> sorted_wrt (<) (self_phi g)
          \<and> int (length (self_Nw g)) = 3
          \<and> hd (self_Nw g) = 10 \<and> last (self_Nw g) = 1000
          \<and> sorted_wrt (<) (self_Nw g))"
proof -
  have v: "valid_axis (phi_range example_config) (phi (resolution example_config))"
      "valid_axis (nw_range example_config) (Nw (resolution example_config))"
    by (simp_all add: valid_axis_def example_config_def)
  from SurfaceGenerator_init_valid_axes[where s = "\<lambda>r. example_config" and cfg = 0
      and flag = False, OF v]
  obtain g where g: "SurfaceGenerator_init (\<lambda>r. example_config) 0 False = Inr g"
      "int (length (self_phi g)) = phi (resolution example_config)"
      "hd (self_phi g) = min_r (phi_range example_config)"
      "last (self_phi g) = max_r (phi_range example_config)"
      "sorted_wrt (<) (self_phi g)"
      "int (length (self_Nw g)) = Nw (resolution example_config)"
      "hd (self_Nw g) = min_r (nw_range example_config)"
      "last (self_Nw g) = max_r (nw_range example_config)"
      "sorted_wrt (<) (self_Nw g)"
    by blast
  have "int (length (self_phi g)) = 3" "hd (self_phi g) = 1 / 1000" "last (self_phi g) = 1 / 10"
      "int (length (self_Nw g)) = 3" "hd (self_Nw g) = 10" "last (self_Nw g) = 1000"
    using g(2,3,4,6,7,8) by (simp_all add: example_config_def)
  then show ?thesis using v g(1,5,9) by blast
qed

text \<open>
  Claim C6 as stated fails: a concentration axis with \<open>max < min\<close> and a chain-length axis
  with a negative lower bound, \<open>max = min\<close> and a single point are accepted. The
  construction returns a generator (with a decreasing grid and a one-point grid) and
  raises nothing.
\<close>

theorem SurfaceGenerator_init_accepts_invalid_axes:
  "SurfaceGenerator_init
     (\<lambda>r. example_config\<lparr>phi_range := \<lparr>min_r = 2, max_r = 1\<rparr>,
                           nw_range := \<lparr>min_r = - 3, max_r = - 3\<rparr>,
                           resolution := \<lparr>phi = 2, Nw = 1, eta_sp = 4\<rparr>\<rparr>) 0 False
   = Inr \<lparr>self_phi = [2, 1], self_Nw = [- 3], generation_function = Mixed_generation,
          config = 0, strip_nw = False, num_batches = None, index = None\<rparr>"
  by (simp add: SurfaceGenerator_init_def example_config_def geomspace_def logspace_def
        linspace_def Let_def upt_rec)

section \<open>Construction of the \<^verbatim>\<open>VoxelImageGenerator\<close>\<close>

lemma SurfaceGenerator_init_Inr:
  assumes "SurfaceGenerator_init s cfg flag = Inr g"
  shows "config g = cfg" "strip_nw g = flag"
    and "int (length (self_phi g)) = phi (resolution (s cfg))"
    and "int (length (self_Nw g)) = Nw (resolution (s cfg))"
  using assms
  by (auto simp: SurfaceGenerator_init_def Let_def dest: geomspace_length split: sum.splits)

text \<open>
  Claim C10. Constructing a \<^verbatim>\<open>VoxelImageGenerator\<close> changes the configuration object it is
  given, in the store: the resolution becomes the old one with each of the three counts
  incremented by one, every other field of that object and every other object stay as
  they are (also when the construction raises afterwards). When the construction succeeds,
  the generator and its internal \<^verbatim>\<open>SurfaceGenerator\<close> both hold the reference to that same
  object, the \<^verbatim>\<open>SurfaceGenerator\<close> is the one built from the changed configuration, and the
  grids and the bin edges are one point longer than the resolution asked for.
\<close>

theorem VoxelImageGenerator_init_mutates_shared_config:
  assumes "VoxelImageGenerator_init d s cfg flag = (res, s')"
  shows "s' cfg = (s cfg)\<lparr>resolution :=
                     \<lparr>phi = phi (resolution (s cfg)) + 1, Nw = Nw (resolution (s cfg)) + 1,
                      eta_sp = eta_sp (resolution (s cfg)) + 1\<rparr>\<rparr>
       \<and> (\<forall>other. other \<noteq> cfg \<longrightarrow> s' other = s other)
       \<and> (\<forall>vg. res = Inr vg \<longrightarrow>
             v_config vg = cfg \<and> config (surface_generator vg) = cfg
             \<and> SurfaceGenerator_init s' cfg flag = Inr (surface_generator vg)
             \<and> int (length (self_phi (surface_generator vg))) = phi (resolution (s cfg)) + 1
             \<and> int (length (self_Nw (surface_generator vg))) = Nw (resolution (s cfg)) + 1
             \<and> int (length (grid_values vg)) = eta_sp (resolution (s cfg)) + 1)"
proof -
  define s1 where "s1 = s(cfg := (s cfg)\<lparr>resolution :=
                     \<lparr>phi = phi (resolution (s cfg)) + 1, Nw = Nw (resolution (s cfg)) + 1,
                      eta_sp = eta_sp (resolution (s cfg)) + 1\<rparr>\<rparr>)"
  define c where "c = s1 cfg"
  define edges where "edges = geomspace (min_r (eta_sp_range c)) (max_r (eta_sp_range c))
                                (eta_sp (resolution c))"
  have run: "VoxelImageGenerator_init d s cfg flag =
     (case edges of
        Inl e \<Rightarrow> (Inl e, s1)
      | Inr es \<Rightarrow>
          (case SurfaceGenerator_init s1 cfg flag of
             Inl e \<Rightarrow> (Inl e, s1)
           | Inr sg \<Rightarrow>
               (Inr \<lparr>v_config = cfg,
                     grid_values = map (\<lambda>v. preprocess_eta_sp d v (eta_sp_range c)) es,
                     v_strip_nw = flag, surface_generator = sg,
                     v_num_batches = None, surface_generator_iter = False\<rparr>, s1)))"
    unfolding VoxelImageGenerator_init_def Let_def s1_def c_def edges_def by (rule refl)
  have store: "s' = s1"
    using assms unfolding run by (auto split: sum.splits)
  have res1: "resolution c = \<lparr>phi = phi (resolution (s cfg)) + 1,
                 Nw = Nw (resolution (s cfg)) + 1, eta_sp = eta_sp (resolution (s cfg)) + 1\<rparr>"
    by (simp add: c_def s1_def)
  have build: "v_config vg = cfg \<and> config (surface_generator vg) = cfg
             \<and> SurfaceGenerator_init s1 cfg flag = Inr (surface_generator vg)
             \<and> int (length (self_phi (surface_generator vg))) = phi (resolution (s cfg)) + 1
             \<and> int (length (self_Nw (surface_generator vg))) = Nw (resolution (s cfg)) + 1
             \<and> int (length (grid_values vg)) = eta_sp (resolution (s cfg)) + 1"
    if "res = Inr vg" for vg
  proof (cases edges)
    case (Inl e)
    then show ?thesis using assms that unfolding run by simp
  next
    case (Inr es)
    note es = this
    show ?thesis
    proof (cases "SurfaceGenerator_init s1 cfg flag")
      case (Inl e)
      then show ?thesis using assms that es unfolding run by simp
    next
      case (Inr sg)
      have vg: "vg = \<lparr>v_config = cfg,
                 grid_values = map (\<lambda>v. preprocess_eta_sp d v (eta_sp_range c)) es,
                 v_strip_nw = flag, surface_generator = sg,
                 v_num_batches = None, surface_generator_iter = False\<rparr>"
        using assms that es Inr unfolding run by simp
      have "int (length es) = eta_sp (resolution c)"
        using es unfolding edges_def by (rule geomspace_length)
      then show ?thesis
        using SurfaceGenerator_init_Inr[OF Inr] Inr res1
        by (simp add: vg c_def[symmetric])
    qed
  qed
  have "s1 cfg = (s cfg)\<lparr>resolution :=
                     \<lparr>phi = phi (resolution (s cfg)) + 1, Nw = Nw (resolution (s cfg)) + 1,
                      eta_sp = eta_sp (resolution (s cfg)) + 1\<rparr>\<rparr>"
       "\<forall>other. other \<noteq> cfg \<longrightarrow> s1 other = s other"
    by (simp_all add: s1_def)
  then show ?thesis using build unfolding store by blast
qed

lemma geomspace_two:
  "0 < a \<Longrightarrow> 0 < b \<Longrightarrow> geomspace a b 2 = Inr [a, b]"
  by (simp add: geomspace_def logspace_def linspace_def Let_def upt_rec)

theorem VoxelImageGenerator_init_mutates_shared_config_witness:
  "VoxelImageGenerator_init example_data (\<lambda>r. single_cell_config) 0 False
     = (Inr single_cell_generator, single_cell_store)
   \<and> (1::nat) \<noteq> 0
   \<and> single_cell_store 1 = single_cell_config
   \<and> single_cell_store 0
        = single_cell_config\<lparr>resolution :=
            \<lparr>phi = phi (resolution single_cell_config) + 1,
             Nw = Nw (resolution single_cell_config) + 1,
             eta_sp = eta_sp (resolution single_cell_config) + 1\<rparr>\<rparr>
   \<and> v_config single_cell_generator = 0
   \<and> config (surface_generator single_cell_generator) = 0
   \<and> SurfaceGenerator_init single_cell_store 0 False
        = Inr (surface_generator single_cell_generator)
   \<and> int (length (self_phi (surface_generator single_cell_generator)))
        = phi (resolution single_cell_config) + 1
   \<and> int (length (self_Nw (surface_generator single_cell_generator)))
        = Nw (resolution single_cell_config) + 1
   \<and> int (length (grid_values single_cell_generator))
        = eta_sp (resolution single_cell_config) + 1"
proof -
  have run: "VoxelImageGenerator_init example_data (\<lambda>r. single_cell_config) 0 False
     = (Inr single_cell_generator, single_cell_store)"
    by (simp add: VoxelImageGenerator_init_def SurfaceGenerator_init_def single_cell_config_def
          example_config_def example_data_def Let_def geomspace_two single_cell_generator_def
          single_cell_store_def)
  note frame = VoxelImageGenerator_init_mutates_shared_config[OF run]
  from frame have "single_cell_store 1 = single_cell_config" by blast
  moreover from frame have "single_cell_store 0
        = single_cell_config\<lparr>resolution :=
            \<lparr>phi = phi (resolution single_cell_config) + 1,
             Nw = Nw (resolution single_cell_config) + 1,
             eta_sp = eta_sp (resolution single_cell_config) + 1\<rparr>\<rparr>" by blast
  moreover from frame have "v_config single_cell_generator = 0
   \<and> config (surface_generator single_cell_generator) = 0
   \<and> SurfaceGenerator_init single_cell_store 0 False
        = Inr (surface_generator single_cell_generator)
   \<and> int (length (self_phi (surface_generator single_cell_generator)))
        = phi (resolution single_cell_config) + 1
   \<and> int (length (self_Nw (surface_generator single_cell_generator)))
        = Nw (resolution single_cell_config) + 1
   \<and> int (length (grid_values single_cell_generator))
        = eta_sp (resolution single_cell_config) + 1" by blast
  ultimately show ?thesis using run by blast
qed

section \<open>The stripping stage\<close>

text \<open>
  The mask of one batch element is true exactly at the indices drawn for it, and the
  number of true entries is the number of different indices among the draws.
\<close>

lemma set_true_nth:
  "j < length m \<Longrightarrow> set_true m cs ! j = (m ! j \<or> j \<in> set cs)"
  unfolding set_true_def
proof (induction cs arbitrary: m)
  case Nil
  then show ?case by simp
next
  case (Cons c cs)
  have "m[c := True] ! j = (m ! j \<or> j = c)"
    using Cons.prems by (cases "c = j") auto
  then show ?case using Cons by auto
qed

lemma set_true_fresh:
  "set_true (replicate W False) cs = map (\<lambda>j. j \<in> set cs) [0..<W]"
  by (rule nth_equalityI) (simp_all add: length_set_true set_true_nth)

lemma kept_count:
  assumes "\<forall>k \<in> set cs. k < W"
  shows "length (filter (\<lambda>keep. keep) (set_true (replicate W False) cs)) = card (set cs)"
proof -
  have "length (filter (\<lambda>keep. keep) (set_true (replicate W False) cs))
          = length (filter (\<lambda>j. j \<in> set cs) [0..<W])"
    by (simp add: set_true_fresh filter_map comp_def)
  also have "\<dots> = card ({j. j \<in> set cs} \<inter> set [0..<W])"
    by (rule distinct_length_filter) simp
  also have "{j. j \<in> set cs} \<inter> set [0..<W] = set cs"
    using assms by auto
  finally show ?thesis .
qed

text \<open>
  Masking changes no shape and no value other than to zero: every entry of the result is
  zero or the entry it replaces.
\<close>

lemma mask_rows_entries:
  assumes "mask_rows surface m = Inr surface'"
  shows "list_all2 (list_all2 (\<lambda>out v. out = 0 \<or> out = v)) surface' surface"
proof -
  have len: "length surface = length m"
    and eq: "surface' = map (\<lambda>(row, keep). if keep then row else map (\<lambda>v. 0) row) (zip surface m)"
    using assms by (auto simp: mask_rows_def split: if_splits)
  show ?thesis
    unfolding eq using len
    by (auto simp: list_all2_conv_all_nth)
qed

lemma strip_loop_entries:
  assumes "strip_loop surfaces to_keep choices = Inr out"
  shows "list_all2 (list_all2 (list_all2 (\<lambda>out v. out = 0 \<or> out = v))) out surfaces"
  using assms
proof (induction surfaces to_keep choices arbitrary: out rule: strip_loop.induct)
  case (1 surface surfaces to_keep_b to_keep choices_b choices)
  from 1(2) obtain surface' rest where
    m: "mask_rows surface (set_true to_keep_b choices_b) = Inr surface'"
    and r: "strip_loop surfaces to_keep choices = Inr rest"
    and out: "out = surface' # rest"
    by (auto split: sum.splits)
  show ?case
    unfolding out using mask_rows_entries[OF m] 1(1)[OF m r] by simp
qed (auto simp: list_all2_conv_all_nth)

lemma strip_entries:
  assumes "strip c dr surfaces = Inr out"
  shows "list_all2 (list_all2 (list_all2 (\<lambda>out v. out = 0 \<or> out = v))) out surfaces"
  using assms by (auto simp: strip_def split: if_splits intro: strip_loop_entries)

text \<open>The stripping stage on a batch of one surface whose number of rows is \<open>Nw\<close>.\<close>

lemma strip_single:
  assumes "0 < Nw (resolution c)" "0 < batch_size c"
    and "int (length surface) = Nw (resolution c)"
    and "nw_index_choices dr = [cs]"
  shows "strip c dr [surface]
           = Inr [map (\<lambda>(row, keep). if keep then row else map (\<lambda>v. 0) row)
                    (zip surface (set_true (replicate (nat (Nw (resolution c))) False) cs))]"
proof -
  obtain k where k: "nat (batch_size c) = Suc k"
    using assms(2) by (cases "nat (batch_size c)") auto
  have "length surface = length (set_true (replicate (nat (Nw (resolution c))) False) cs)"
    using assms(3) by (simp add: length_set_true)
  then show ?thesis
    using assms(1,2,4) by (simp add: strip_def k mask_rows_def)
qed

text \<open>
  Claim C5. The stripping stage is meant to zero every chain-length column but the chosen
  ones (the docstring: the surfaces are stripped down in the \<open>Nw\<close> dimension). It zeroes
  along the other axis. For a batch of one with \<^verbatim>\<open>resolution.Nw = 64\<close>, a \<open>64 \<times> 64\<close> surface
  of ones and the eight distinct draws \<open>0, \<dots>, 7\<close>, the entry at concentration \<open>p\<close> and
  chain length \<open>w\<close> comes back as one when \<open>p < 8\<close> and as zero otherwise, whatever \<open>w\<close> is:
  all 64 chain-length columns are non-zero, none of them is intact, and 56 concentration
  rows are zero. On a grid that is not square (two concentrations against
  \<^verbatim>\<open>resolution.Nw = 3\<close>) the stage raises IndexError.
\<close>

theorem strip_nw_zeroes_concentration_rows:
  "strip spec_example_config
     (example_draws\<lparr>nw_index_choices := [[0, 1, 2, 3, 4, 5, 6, 7]]\<rparr>)
     [replicate 64 (replicate 64 1)]
   = Inr [map (\<lambda>p. replicate 64 (if p < 8 then 1 else 0)) [0..<64]]
   \<and> strip rectangular_config example_draws
       [[[1, 1, 1], [1, 1, 1]], [[1, 1, 1], [1, 1, 1]]]
     = Inl IndexError"
proof
  have "strip spec_example_config
     (example_draws\<lparr>nw_index_choices := [[0, 1, 2, 3, 4, 5, 6, 7]]\<rparr>)
     [replicate 64 (replicate 64 1)]
     = Inr [map (\<lambda>(row, keep). if keep then row else map (\<lambda>v. 0) row)
              (zip (replicate 64 (replicate 64 1))
                 (set_true (replicate (nat (Nw (resolution spec_example_config))) False)
                    [0, 1, 2, 3, 4, 5, 6, 7]))]"
    by (rule strip_single) (simp_all add: spec_example_config_def example_config_def)
  moreover have "map (\<lambda>(row, keep). if keep then row else map (\<lambda>v. 0) row)
              (zip (replicate 64 (replicate 64 (1::real)))
                 (set_true (replicate (nat (Nw (resolution spec_example_config))) False)
                    [0, 1, 2, 3, 4, 5, 6, 7]))
        = map (\<lambda>p. replicate 64 (if p < 8 then 1 else 0)) [0..<64]"
    by (rule nth_equalityI)
       (auto simp: spec_example_config_def length_set_true set_true_nth)
  ultimately show "strip spec_example_config
     (example_draws\<lparr>nw_index_choices := [[0, 1, 2, 3, 4, 5, 6, 7]]\<rparr>)
     [replicate 64 (replicate 64 1)]
   = Inr [map (\<lambda>p. replicate 64 (if p < 8 then 1 else 0)) [0..<64]]"
    by simp
next
  show "strip rectangular_config example_draws
       [[[1, 1, 1], [1, 1, 1]], [[1, 1, 1], [1, 1, 1]]]
     = Inl IndexError"
    by (simp add: strip_def rectangular_config_def example_config_def example_draws_def
          mask_rows_def length_set_true numeral_2_eq_2)
qed

text \<open>
  The eight indices are drawn independently, so they need not be distinct: when all
  eight draws are 5, a single row of the \<open>64 \<times> 64\<close> surface of ones survives.
\<close>

lemma strip_nw_collision_keeps_one_row:
  "strip spec_example_config
     (example_draws\<lparr>nw_index_choices := [[5, 5, 5, 5, 5, 5, 5, 5]]\<rparr>)
     [replicate 64 (replicate 64 1)]
   = Inr [map (\<lambda>p. replicate 64 (if p = 5 then 1 else 0)) [0..<64]]"
proof -
  have "strip spec_example_config
     (example_draws\<lparr>nw_index_choices := [[5, 5, 5, 5, 5, 5, 5, 5]]\<rparr>)
     [replicate 64 (replicate 64 1)]
     = Inr [map (\<lambda>(row, keep). if keep then row else map (\<lambda>v. 0) row)
              (zip (replicate 64 (replicate 64 1))
                 (set_true (replicate (nat (Nw (resolution spec_example_config))) False)
                    [5, 5, 5, 5, 5, 5, 5, 5]))]"
    by (rule strip_single) (simp_all add: spec_example_config_def example_config_def)
  moreover have "map (\<lambda>(row, keep). if keep then row else map (\<lambda>v. 0) row)
              (zip (replicate 64 (replicate 64 (1::real)))
                 (set_true (replicate (nat (Nw (resolution spec_example_config))) False)
                    [5, 5, 5, 5, 5, 5, 5, 5]))
        = map (\<lambda>p. replicate 64 (if p = 5 then 1 else 0)) [0..<64]"
    by (rule nth_equalityI)
       (auto simp: spec_example_config_def length_set_true set_true_nth)
  ultimately show ?thesis by simp
qed

text \<open>
  The same through \<^verbatim>\<open>__next__\<close>, on a \<open>2 \<times> 2\<close> grid with all draws equal to 1: the row of
  the first concentration is zero and the row of the second is as the generation
  function made it.
\<close>

lemma SurfaceGenerator_next_strips_first_axis:
  "SurfaceGenerator_next example_data (\<lambda>r. square_config) square_generator square_draws
       = (Inr ([[[0, 0], [good_eta_sp 1 3 2 10, good_eta_sp 1 3 2 100]]], [[1, 3]]),
          square_generator\<lparr>index := Some 1\<rparr>)"
    by (simp add: SurfaceGenerator_next_def square_generator_def square_config_def
          square_draws_def example_config_def example_data_def run_generation_def
          good_generation_def good_raw_def broadcast_def map_tensor_def strip_def
          mask_rows_def set_true_def Let_def numeral_2_eq_2)

section \<open>The voxel image\<close>

lemma has_shape_nth:
  assumes "has_shape B P W t" "b < B"
  shows "length (t ! b) = P"
    and "p < P \<Longrightarrow> length (t ! b ! p) = W"
  using assms by (auto simp: has_shape_def list_all_length)

text \<open>
  Reshaping a tensor to the shape it has returns it: entry \<open>(b, p, w)\<close> is at position
  \<open>b * P * W + p * W + w\<close> of the row-major enumeration.
\<close>

lemma concat_uniform_length:
  "list_all (\<lambda>xs. length xs = n) xss \<Longrightarrow> length (concat xss) = length xss * n"
  by (induction xss) auto

lemma concat_uniform_nth:
  "list_all (\<lambda>xs. length xs = n) xss \<Longrightarrow> i < length xss \<Longrightarrow> j < n
     \<Longrightarrow> concat xss ! (i * n + j) = xss ! i ! j"
proof (induction xss arbitrary: i)
  case Nil
  then show ?case by simp
next
  case (Cons xs xss)
  show ?case
  proof (cases i)
    case 0
    then show ?thesis using Cons.prems by (simp add: nth_append)
  next
    case (Suc k)
    then have "concat (xs # xss) ! (i * n + j) = concat xss ! (k * n + j)"
      using Cons.prems by (simp add: nth_append)
    then show ?thesis using Cons Suc by simp
  qed
qed

lemma flat_index_bound:
  fixes p w P W :: nat
  assumes "p < P" "w < W"
  shows "p * W + w < P * W"
proof -
  have "p * W + w < p * W + W" using assms(2) by simp
  also have "\<dots> = Suc p * W" by simp
  also have "\<dots> \<le> P * W" using assms(1) by (intro mult_le_mono1) simp
  finally show ?thesis .
qed

lemma reshape_same_shape:
  assumes "has_shape B P W t"
  shows "reshape (int B) (int P) (int W) t = Inr t"
proof -
  define flat where "flat = concat (map concat t)"
  have planes: "list_all (\<lambda>plane. length plane = P \<and> list_all (\<lambda>row. length row = W) plane) t"
    and lt: "length t = B"
    using assms by (simp_all add: has_shape_def)
  have plane_len: "list_all (\<lambda>xs. length xs = P * W) (map concat t)"
    using planes by (auto simp: list_all_iff concat_uniform_length)
  have len: "length flat = B * (P * W)"
    unfolding flat_def using concat_uniform_length[OF plane_len] lt by simp
  have entry: "flat ! (b * P * W + p * W + w) = t ! b ! p ! w"
    if "b < B" "p < P" "w < W" for b p w
  proof -
    have rows: "list_all (\<lambda>row. length row = W) (t ! b)" and lp: "length (t ! b) = P"
      using planes that(1) lt by (auto simp: list_all_length)
    have "flat ! (b * (P * W) + (p * W + w)) = map concat t ! b ! (p * W + w)"
      unfolding flat_def
      using plane_len that lt by (intro concat_uniform_nth) (simp_all add: flat_index_bound)
    also have "\<dots> = concat (t ! b) ! (p * W + w)" using that(1) lt by simp
    also have "\<dots> = t ! b ! p ! w"
      using rows that lp by (intro concat_uniform_nth) simp_all
    finally show ?thesis by (simp add: mult.assoc add.assoc)
  qed
  have "map (\<lambda>b. map (\<lambda>p. map (\<lambda>w. flat ! (b * P * W + p * W + w)) [0..<W]) [0..<P]) [0..<B] = t"
  proof (rule nth_equalityI)
    show "length (map (\<lambda>b. map (\<lambda>p. map (\<lambda>w. flat ! (b * P * W + p * W + w)) [0..<W]) [0..<P]) [0..<B]) = length t"
      using lt by simp
  next
    fix b assume "b < length (map (\<lambda>b. map (\<lambda>p. map (\<lambda>w. flat ! (b * P * W + p * W + w)) [0..<W]) [0..<P]) [0..<B])"
    then have b: "b < B" by simp
    have "map (\<lambda>p. map (\<lambda>w. flat ! (b * P * W + p * W + w)) [0..<W]) [0..<P] = t ! b"
    proof (rule nth_equalityI)
      show "length (map (\<lambda>p. map (\<lambda>w. flat ! (b * P * W + p * W + w)) [0..<W]) [0..<P]) = length (t ! b)"
        using has_shape_nth(1)[OF assms b] by simp
    next
      fix p assume "p < length (map (\<lambda>p. map (\<lambda>w. flat ! (b * P * W + p * W + w)) [0..<W]) [0..<P])"
      then have p: "p < P" by simp
      have "map (\<lambda>w. flat ! (b * P * W + p * W + w)) [0..<W] = t ! b ! p"
        by (rule nth_equalityI) (simp_all add: has_shape_nth(2)[OF assms b p] entry b p)
      then show "map (\<lambda>p. map (\<lambda>w. flat ! (b * P * W + p * W + w)) [0..<W]) [0..<P] ! p = t ! b ! p"
        using p by simp
    qed
    then show "map (\<lambda>b. map (\<lambda>p. map (\<lambda>w. flat ! (b * P * W + p * W + w)) [0..<W]) [0..<P]) [0..<B] ! b = t ! b"
      using b by simp
  qed
  then show ?thesis
    using len by (simp add: reshape_def flat_def[symmetric] Let_def)
qed

lemma map2_same:
  "map2 h (map f xs) (map g xs) = map (\<lambda>x. h (f x) (g x)) xs"
  by (induction xs) auto

lemma map2_same_comp:
  "map2 h (map f (map k xs)) (map g (map k xs)) = map (\<lambda>x. h (f (k x)) (g (k x))) xs"
  by (induction xs) auto

lemma map2_adjacent:
  assumes "length xs = length ys"
  shows "map2 h (map f (butlast xs)) (map g (tl ys))
           = map (\<lambda>i. h (f (xs ! i)) (g (ys ! (i + 1)))) [0..<length xs - 1]"
  by (rule nth_equalityI) (simp_all add: assms nth_butlast nth_tl)

lemma compare_cell:
  "map2 (\<lambda>x y. if x \<and> y then 1 else 0)
     (compare_last (\<lambda>a b. a < b) (butlast (replicate (length grid) lo)) (tl grid))
     (compare_last (\<lambda>a b. a > b) (tl (replicate (length grid) up)) (butlast grid))
   = cell grid lo up"
  unfolding cell_def
  by (rule nth_equalityI) (simp_all add: compare_last_def butlast_conv_take nth_tl)

lemma voxelize_explicit:
  assumes "has_shape B P W t" "length grid = E"
  shows "voxelize (int B) (int P) (int W) (int E) t grid =
     Inr (map (\<lambda>plane. map (\<lambda>p. map (\<lambda>w. cell grid (plane ! p ! w) (plane ! (p + 1) ! (w + 1)))
                                 [0..<W - 1]) [0..<P - 1]) t)"
proof -
  let ?G = "\<lambda>lo up. map2 (\<lambda>x y. if x \<and> y then (1::int) else 0)
                        (compare_last (\<lambda>a b. a < b) lo (tl grid))
                        (compare_last (\<lambda>a b. a > b) up (butlast grid))"
  let ?tile = "map (map (\<lambda>v. replicate E v))"
  have planes: "list_all (\<lambda>plane. length plane = P \<and> list_all (\<lambda>row. length row = W) plane) t"
    using assms(1) by (simp add: has_shape_def)
  have plane_eq:
    "map2 (map2 ?G) (map (\<lambda>row. map butlast (butlast row)) (butlast (?tile plane)))
                    (map (\<lambda>row. map tl (tl row)) (tl (?tile plane)))
       = map (\<lambda>p. map (\<lambda>w. cell grid (plane ! p ! w) (plane ! (p + 1) ! (w + 1)))
                             [0..<W - 1]) [0..<P - 1]"
    if pl: "length plane = P" "list_all (\<lambda>row. length row = W) plane" for plane
  proof -
    have row_eq: "map2 ?G (map butlast (butlast (?tile plane ! p)))
                          (map tl (tl (?tile plane ! (p + 1))))
           = map (\<lambda>w. cell grid (plane ! p ! w) (plane ! (p + 1) ! (w + 1))) [0..<W - 1]"
      if p: "p < P - 1" for p
    proof -
      have lens: "length (plane ! p) = W" "length (plane ! (p + 1)) = W"
        using pl p by (auto simp: list_all_length)
      have "map2 ?G (map butlast (butlast (map (\<lambda>v. replicate E v) (plane ! p))))
                    (map tl (tl (map (\<lambda>v. replicate E v) (plane ! (p + 1)))))
             = map (\<lambda>w. ?G (butlast (map (\<lambda>v. replicate E v) (plane ! p) ! w))
                            (tl (map (\<lambda>v. replicate E v) (plane ! (p + 1)) ! (w + 1))))
                 [0..<length (map (\<lambda>v. replicate E v) (plane ! p)) - 1]"
        using lens by (intro map2_adjacent) simp
      also have "\<dots> = map (\<lambda>w. cell grid (plane ! p ! w) (plane ! (p + 1) ! (w + 1))) [0..<W - 1]"
        using lens compare_cell[of grid] assms(2) by (auto simp: lens)
      finally show ?thesis using pl(1) p by simp
    qed
    have "map2 (map2 ?G) (map (\<lambda>row. map butlast (butlast row)) (butlast (?tile plane)))
                    (map (\<lambda>row. map tl (tl row)) (tl (?tile plane)))
          = map (\<lambda>p. map2 ?G (map butlast (butlast (?tile plane ! p)))
                               (map tl (tl (?tile plane ! (p + 1)))))
              [0..<length (?tile plane) - 1]"
      by (rule map2_adjacent) simp
    also have "\<dots> = map (\<lambda>p. map (\<lambda>w. cell grid (plane ! p ! w) (plane ! (p + 1) ! (w + 1)))
                             [0..<W - 1]) [0..<P - 1]"
      using row_eq pl(1) by simp
    finally show ?thesis .
  qed
  have "map2 (map2 (map2 ?G))
          (map (\<lambda>plane. map (\<lambda>row. map butlast (butlast row)) (butlast plane)) (tile_last E t))
          (map (\<lambda>plane. map (\<lambda>row. map tl (tl row)) (tl plane)) (tile_last E t))
        = map (\<lambda>plane. map2 (map2 ?G)
                 (map (\<lambda>row. map butlast (butlast row)) (butlast (?tile plane)))
                 (map (\<lambda>row. map tl (tl row)) (tl (?tile plane)))) t"
    unfolding tile_last_def by (rule map2_same_comp)
  also have "\<dots> = map (\<lambda>plane. map (\<lambda>p. map (\<lambda>w. cell grid (plane ! p ! w) (plane ! (p + 1) ! (w + 1)))
                                 [0..<W - 1]) [0..<P - 1]) t"
    using planes plane_eq by (auto simp: list_all_iff)
  finally show ?thesis
    using assms(2) by (simp add: voxelize_def reshape_same_shape[OF assms(1)] Let_def)
qed

lemma cell_entry:
  assumes "e < length grid - 1"
  shows "length (cell grid lo up) = length grid - 1"
    and "cell grid lo up ! e = (if lo < grid ! (e + 1) \<and> up > grid ! e then 1 else 0)"
  using assms by (simp_all add: cell_def)

text \<open>
  Claim C3. For surfaces of shape \<open>(batch, P, W)\<close> and \<open>E\<close> bin edges the image is a tensor
  of shape \<open>(batch, P - 1, W - 1, E - 1)\<close> of zeros and ones, and its entry \<open>(b, p, w, e)\<close> is
  one exactly when the surface value at the lower corner \<open>(b, p, w)\<close> is strictly below the
  upper edge \<open>e + 1\<close> of the bin and the surface value at the upper corner
  \<open>(b, p + 1, w + 1)\<close> is strictly above its lower edge \<open>e\<close>.
\<close>

theorem voxelize_occupancy:
  assumes "has_shape B P W surfaces" "length grid = E"
    and "b < B" "p < P - 1" "w < W - 1" "e < E - 1"
  shows "\<exists>image. voxelize (int B) (int P) (int W) (int E) surfaces grid = Inr image
       \<and> length image = B
       \<and> list_all (\<lambda>plane. length plane = P - 1
            \<and> list_all (\<lambda>row. length row = W - 1
                 \<and> list_all (\<lambda>bins. length bins = E - 1) row) plane) image
       \<and> (image ! b ! p ! w ! e = 0 \<or> image ! b ! p ! w ! e = 1)
       \<and> (image ! b ! p ! w ! e = 1 \<longleftrightarrow>
            surfaces ! b ! p ! w < grid ! (e + 1)
            \<and> surfaces ! b ! (p + 1) ! (w + 1) > grid ! e)"
proof -
  define image where "image = map (\<lambda>plane. map (\<lambda>p. map (\<lambda>w.
      cell grid (plane ! p ! w) (plane ! (p + 1) ! (w + 1))) [0..<W - 1]) [0..<P - 1]) surfaces"
  have run: "voxelize (int B) (int P) (int W) (int E) surfaces grid = Inr image"
    unfolding image_def using assms(1,2) by (rule voxelize_explicit)
  have lb: "length surfaces = B" using assms(1) by (simp add: has_shape_def)
  then have len: "length image = B" by (simp add: image_def)
  have shape: "list_all (\<lambda>plane. length plane = P - 1
            \<and> list_all (\<lambda>row. length row = W - 1
                 \<and> list_all (\<lambda>bins. length bins = E - 1) row) plane) image"
    using assms(2) by (auto simp: image_def list_all_iff cell_def)
  have entry: "image ! b ! p ! w ! e
      = (if surfaces ! b ! p ! w < grid ! (e + 1)
            \<and> surfaces ! b ! (p + 1) ! (w + 1) > grid ! e then 1 else 0)"
    using assms(2-6) lb by (simp add: image_def cell_entry)
  show ?thesis using run len shape entry by auto
qed

theorem voxelize_occupancy_witness:
  "has_shape 1 3 3 example_surfaces \<and> length [1, 2, 3, 4 :: real] = 4
   \<and> (0::nat) < 1 \<and> (0::nat) < 3 - 1 \<and> (1::nat) < 4 - 1
   \<and> (\<exists>image. voxelize 1 3 3 4 example_surfaces [1, 2, 3, 4] = Inr image
         \<and> length image = 1
         \<and> image ! 0 ! 0 ! 0 ! 0 = 0 \<and> image ! 0 ! 0 ! 0 ! 1 = 1 \<and> image ! 0 ! 0 ! 0 ! 2 = 0)"
proof -
  have shape: "has_shape 1 3 3 example_surfaces"
    by (simp add: has_shape_def example_surfaces_def)
  have len: "length [1, 2, 3, 4 :: real] = 4" by simp
  from voxelize_occupancy[OF shape len, of 0 0 0 0] obtain image0 where
    i0: "voxelize (int 1) (int 3) (int 3) (int 4) example_surfaces [1, 2, 3, 4] = Inr image0"
        "length image0 = 1" "image0 ! 0 ! 0 ! 0 ! 0 = 0"
    by (auto simp: example_surfaces_def)
  from voxelize_occupancy[OF shape len, of 0 0 0 1] i0(1)
  have i1: "image0 ! 0 ! 0 ! 0 ! 1 = 1"
    by (auto simp: example_surfaces_def)
  from voxelize_occupancy[OF shape len, of 0 0 0 2] i0(1)
  have i2: "image0 ! 0 ! 0 ! 0 ! 2 = 0"
    by (auto simp: example_surfaces_def)
  show ?thesis using shape i0 i1 i2 by auto
qed

text \<open>\<^verbatim>\<open>__next__\<close> returns that image with the features of the surface generator.\<close>

lemma VoxelImageGenerator_next_voxelizes:
  assumes "surface_generator_iter self"
    and "SurfaceGenerator_next d s (surface_generator self) dr = (Inr (surfaces, features), sg)"
    and "voxelize (batch_size (s (v_config self))) (phi (resolution (s (v_config self))))
           (Nw (resolution (s (v_config self)))) (eta_sp (resolution (s (v_config self))))
           surfaces (grid_values self) = Inr img"
  shows "VoxelImageGenerator_next d s self dr
           = (Inr (img, features), self\<lparr>surface_generator := sg\<rparr>)"
  using assms by (simp add: VoxelImageGenerator_next_def Let_def)

end
